theory Spec2Isabelle
  imports Main "HOL-Library.Sublist"
begin

section \<open>Go values: errors, results, decimal rendering\<close>

text \<open>
  A Go \<open>error\<close> is an opaque value. The model keeps three kinds apart: errors handed in by
  the HTTP transport (\<open>httpClient.Do\<close>, \<open>io.ReadAll\<close>), errors handed in by the JSON
  decoder or encoder, and errors the package builds itself with \<open>fmt.Errorf\<close>, which
  carry their formatted message.
\<close>

datatype error = NetworkError string | DecodeError string | Errorf string

text \<open>
  A Go call either returns its result tuple or panics. A result \<open>(*T, error)\<close> is a pair
  of options, so that \<open>(nil, nil)\<close> is the value \<open>Return (None, None)\<close>; a result
  \<open>error\<close> is an \<open>error option\<close>, \<open>None\<close> being \<open>nil\<close>.
\<close>

datatype 'r go = Return 'r | Panic

text \<open>The verb \<open>%d\<close> of \<open>fmt\<close>: an integer in decimal, with a minus sign when negative.\<close>

definition digit :: "nat \<Rightarrow> char" where
  "digit n = ''0123456789'' ! n"

function show_nat :: "nat \<Rightarrow> string" where
  "show_nat n = (if n < 10 then [digit n] else show_nat (n div 10) @ [digit (n mod 10)])"
  by pat_completeness auto
termination
  by (relation "measure id") auto

definition show_int :: "int \<Rightarrow> string" where
  "show_int i = (if i < 0 then ''-'' @ show_nat (nat (- i)) else show_nat (nat i))"

section \<open>The data model of \<open>project.go\<close>\<close>

text \<open>
  Modelled from the spec: \<open>Parameters\<close> and \<open>BuildTypeReferences\<close> are declared outside
  the files at hand. The spec describes the parameter model as an ordered key-value
  collection; \<open>Parameters\<close> is taken with the field the code reads (\<open>Count\<close>) and the
  items the inherited filter ranges over. \<open>BuildTypeReferences\<close> is carried along as a
  list of identifiers, no operation below reads it.
\<close>

record Parameter =
  Parameter_Name :: string
  Parameter_Value :: string
  Parameter_Inherited :: bool

record Parameters =
  Parameters_Count :: int
  Parameters_Href :: string
  Parameters_Items :: "Parameter list"

type_synonym BuildTypeReferences = "string list"

record ProjectReference =
  ProjectReference_ID :: string
  ProjectReference_Name :: string
  ProjectReference_Description :: string
  ProjectReference_Href :: string
  ProjectReference_WebURL :: string

text \<open>Pointer fields (\<open>*bool\<close>, \<open>*Parameters\<close>, \<open>*ProjectReference\<close>) are options.\<close>

record Project =
  Project_Archived :: "bool option"
  Project_Description :: string
  Project_Href :: string
  Project_ID :: string
  Project_Name :: string
  Project_Parameters :: "Parameters option"
  Project_ParentProject :: "ProjectReference option"
  Project_ParentProjectID :: string
  Project_WebURL :: string
  Project_BuildTypes :: BuildTypeReferences
  Project_UUID :: string

section \<open>HTTP: requests, responses, the transport\<close>

datatype verb = GET | POST | PUT | DELETE

text \<open>
  The body of a request as the request builder receives it: nothing, a \<open>text/plain\<close>
  string (\<open>textPlainBodyProvider\<close>), or a value handed to \<open>BodyJSON\<close>.
\<close>

datatype payload =
    NoBody
  | TextPlain string
  | JSON_Project Project
  | JSON_ProjectReference "ProjectReference option"
  | JSON_Parameters "Parameters option"

text \<open>
  \<open>Path\<close> is relative to the base path of the service (\<open>projects/\<close>); \<open>Fields\<close> is
  the \<open>fields\<close> query parameter of \<open>getFields\<close>, empty when omitted.
\<close>

record request =
  Method :: verb
  Path :: string
  Fields :: string
  Payload :: payload

text \<open>
  A response is its status code and what reading the body to its end yields: the bytes,
  or the error of the read.
\<close>

record response =
  StatusCode :: int
  Body :: "error + string"

text \<open>
  The transport is the environment of the package: \<open>Request_error\<close> is the error of the
  request builder's \<open>Request()\<close> (\<open>None\<close> when the request is built), and \<open>Do\<close> is
  \<open>httpClient.Do\<close>, a step of the remote server of state \<open>'sv\<close> that answers with a
  transport error or a response.
\<close>

record 'sv transport =
  Request_error :: "request \<Rightarrow> error option"
  Do :: "'sv \<Rightarrow> request \<Rightarrow> (error + response) \<times> 'sv"

text \<open>The world a call runs in: the server's state and the requests sent so far.\<close>

record 'sv world =
  server :: 'sv
  sent :: "request list"

definition httpClient_Do :: "'sv transport \<Rightarrow> request \<Rightarrow> 'sv world \<Rightarrow> (error + response) \<times> 'sv world" where
  "httpClient_Do t rq w =
     (case Do t (server w) rq of
        (r, s') \<Rightarrow> (r, \<lparr>server = s', sent = sent w @ [rq]\<rparr>))"

section \<open>The REST helper\<close>

definition handleRestError :: "string \<Rightarrow> int \<Rightarrow> string \<Rightarrow> string \<Rightarrow> error" where
  "handleRestError dt status op res =
     Errorf (''Error '' @ [CHR 0x27] @ show_int status @ [CHR 0x27] @ '' when performing '' @ [CHR 0x27]
             @ op @ [CHR 0x27] @ '' operation - '' @ res @ '': '' @ dt)"

text \<open>
  \<open>json.NewDecoder(response.Body).Decode(out)\<close>: the decoder reads the body, so an
  error of the read is the error of the decoding; \<open>dec\<close> is the decoding of the bytes
  into the type of \<open>out\<close>.
\<close>

definition Decode :: "(string \<Rightarrow> error + 'a) \<Rightarrow> error + string \<Rightarrow> error + 'a" where
  "Decode dec body = (case body of Inl err \<Rightarrow> Inl err | Inr bytes \<Rightarrow> dec bytes)"

text \<open>
  The helpers return \<open>error\<close> and fill \<open>out\<close>: \<open>Inl err\<close> is the error, \<open>Inr v\<close> is
  \<open>nil\<close> with \<open>v\<close> written to \<open>out\<close>. In \<open>getWithFields\<close>, \<open>post\<close> and \<open>put\<close> the
  error of the request builder is discarded (\<open>request, _ :=\<close>) and \<open>Do\<close> is called.
\<close>

definition getWithFields ::
  "'sv transport \<Rightarrow> (string \<Rightarrow> error + 'a) \<Rightarrow> string \<Rightarrow> string \<Rightarrow> string \<Rightarrow> 'sv world \<Rightarrow> (error + 'a) \<times> 'sv world" where
  "getWithFields t dec path getFields resourceDescription w =
     (case httpClient_Do t \<lparr>Method = GET, Path = path, Fields = getFields, Payload = NoBody\<rparr> w of
        (Inl err, w') \<Rightarrow> (Inl err, w')
      | (Inr response, w') \<Rightarrow>
          if StatusCode response = 200 then (Decode dec (Body response), w')
          else (case Body response of
                  Inl err \<Rightarrow> (Inl err, w')
                | Inr dt \<Rightarrow> (Inl (handleRestError dt (StatusCode response) ''GET'' resourceDescription), w')))"

definition get ::
  "'sv transport \<Rightarrow> (string \<Rightarrow> error + 'a) \<Rightarrow> string \<Rightarrow> string \<Rightarrow> 'sv world \<Rightarrow> (error + 'a) \<times> 'sv world" where
  "get t dec path resourceDescription w = getWithFields t dec path [] resourceDescription w"

definition post ::
  "'sv transport \<Rightarrow> (string \<Rightarrow> error + 'a) \<Rightarrow> string \<Rightarrow> payload \<Rightarrow> string \<Rightarrow> 'sv world \<Rightarrow> (error + 'a) \<times> 'sv world" where
  "post t dec path data resourceDescription w =
     (case httpClient_Do t \<lparr>Method = POST, Path = path, Fields = [], Payload = data\<rparr> w of
        (Inl err, w') \<Rightarrow> (Inl err, w')
      | (Inr response, w') \<Rightarrow>
          if StatusCode response = 201 \<or> StatusCode response = 200 then (Decode dec (Body response), w')
          else (case Body response of
                  Inl err \<Rightarrow> (Inl err, w')
                | Inr dt \<Rightarrow> (Inl (handleRestError dt (StatusCode response) ''POST'' resourceDescription), w')))"

definition put ::
  "'sv transport \<Rightarrow> (string \<Rightarrow> error + 'a) \<Rightarrow> string \<Rightarrow> payload \<Rightarrow> string \<Rightarrow> 'sv world \<Rightarrow> (error + 'a) \<times> 'sv world" where
  "put t dec path data resourceDescription w =
     (case httpClient_Do t \<lparr>Method = PUT, Path = path, Fields = [], Payload = data\<rparr> w of
        (Inl err, w') \<Rightarrow> (Inl err, w')
      | (Inr response, w') \<Rightarrow>
          if StatusCode response = 201 \<or> StatusCode response = 200 then (Decode dec (Body response), w')
          else (case Body response of
                  Inl err \<Rightarrow> (Inl err, w')
                | Inr dt \<Rightarrow> (Inl (handleRestError dt (StatusCode response) ''PUT'' resourceDescription), w')))"

text \<open>
  \<open>putTextPlain\<close> checks the error of the request builder, reads the whole body before
  it looks at the status, and returns the body as a string. The \<open>Accept\<close> header it adds
  is not part of the request record. The variants with a custom reader (\<open>getCustom\<close>,
  \<open>putCustom\<close>, \<open>postCustom\<close>) are called by none of the code at hand and are left out.
\<close>

definition putTextPlain ::
  "'sv transport \<Rightarrow> string \<Rightarrow> string \<Rightarrow> string \<Rightarrow> 'sv world \<Rightarrow> (error + string) \<times> 'sv world" where
  "putTextPlain t path data resourceDescription w =
     (let req = \<lparr>Method = PUT, Path = path, Fields = [], Payload = TextPlain data\<rparr> in
      case Request_error t req of
        Some err \<Rightarrow> (Inl err, w)
      | None \<Rightarrow>
          (case httpClient_Do t req w of
             (Inl err, w') \<Rightarrow> (Inl err, w')
           | (Inr resp, w') \<Rightarrow>
               (case Body resp of
                  Inl err \<Rightarrow> (Inl err, w')
                | Inr bodyBytes \<Rightarrow>
                    if StatusCode resp = 201 \<or> StatusCode resp = 200 then (Inr bodyBytes, w')
                    else (Inl (handleRestError bodyBytes (StatusCode resp) ''PUT'' resourceDescription), w'))))"

text \<open>
  \<open>deleteByIDWithSling\<close> and \<open>delete\<close>, which calls it with the helper's own request
  builder: the same base path, so the same request in the model.
\<close>

definition deleteByIDWithSling ::
  "'sv transport \<Rightarrow> string \<Rightarrow> string \<Rightarrow> 'sv world \<Rightarrow> error option \<times> 'sv world" where
  "deleteByIDWithSling t resourceID resourceDescription w =
     (case httpClient_Do t \<lparr>Method = DELETE, Path = resourceID, Fields = [], Payload = NoBody\<rparr> w of
        (Inl err, w') \<Rightarrow> (Some err, w')
      | (Inr response, w') \<Rightarrow>
          if StatusCode response = 204 then (None, w')
          else if StatusCode response \<noteq> 200 \<and> StatusCode response \<noteq> 204 then
            (case Body response of
               Inl err \<Rightarrow> (Some err, w')
             | Inr dt \<Rightarrow> (Some (handleRestError dt (StatusCode response) ''DELETE'' resourceDescription), w'))
          else (None, w'))"

definition delete ::
  "'sv transport \<Rightarrow> string \<Rightarrow> string \<Rightarrow> 'sv world \<Rightarrow> error option \<times> 'sv world" where
  "delete t path resourceDescription w = deleteByIDWithSling t path resourceDescription w"

text \<open>
  \<open>answered t w rq resp\<close>: in the world \<open>w\<close> the transport answers the request \<open>rq\<close>
  with the response \<open>resp\<close>, and not with a transport error.
\<close>

definition answered :: "'sv transport \<Rightarrow> 'sv world \<Rightarrow> request \<Rightarrow> response \<Rightarrow> bool" where
  "answered t w rq resp \<longleftrightarrow> fst (Do t (server w) rq) = Inr resp"

section \<open>Locators\<close>

text \<open>
  Modelled from the spec: the locator type and its constructors (\<open>LocatorID\<close>,
  \<open>LocatorName\<close>, \<open>LocatorUUID\<close>) are declared outside the files at hand. The spec
  calls a locator a formatted path segment identifying a remote resource, and the code
  at hand passes locators on and calls \<open>String()\<close> on them, directly or through the verb
  \<open>%s\<close>: a locator is the path segment its \<open>String()\<close> returns. The constructors are
  taken as parameters of the service below, so nothing is assumed about the segment they
  format.
\<close>

datatype Locator = Locator string

fun Locator_String :: "Locator \<Rightarrow> string" where
  "Locator_String (Locator s) = s"

section \<open>Parameters\<close>

text \<open>
  Modelled from the spec: \<open>NewParametersEmpty\<close> and \<open>NonInherited\<close> are not among the
  files at hand. The spec says that Get strips inherited parameters from the result:
  \<open>NonInherited\<close> is the collection of the items that are not inherited, in their order,
  with its count. Its receiver is a pointer; on \<open>nil\<close> there is no collection to range
  over, which the callers below model as the nil dereference it is in Go.
\<close>

definition NewParametersEmpty :: Parameters where
  "NewParametersEmpty = \<lparr>Parameters_Count = 0, Parameters_Href = [], Parameters_Items = []\<rparr>"

definition NonInherited :: "Parameters \<Rightarrow> Parameters" where
  "NonInherited p =
     (let items = filter (\<lambda>v. \<not> Parameter_Inherited v) (Parameters_Items p)
      in NewParametersEmpty\<lparr>Parameters_Count := int (length items), Parameters_Items := items\<rparr>)"

section \<open>The project service\<close>

definition NewProject :: "string \<Rightarrow> string \<Rightarrow> string \<Rightarrow> Project option \<times> error option" where
  "NewProject name description parentProjectID =
     (if name = [] then (None, Some (Errorf ''name is required''))
      else
        let parent = (if parentProjectID \<noteq> []
                      then Some \<lparr>ProjectReference_ID = parentProjectID, ProjectReference_Name = [],
                                 ProjectReference_Description = [], ProjectReference_Href = [],
                                 ProjectReference_WebURL = []\<rparr>
                      else None)
        in (Some \<lparr>Project_Archived = None, Project_Description = description, Project_Href = [],
                   Project_ID = [], Project_Name = name, Project_Parameters = Some NewParametersEmpty,
                   Project_ParentProject = parent, Project_ParentProjectID = parentProjectID,
                   Project_WebURL = [], Project_BuildTypes = [], Project_UUID = []\<rparr>, None))"

text \<open>
  The service is its REST helper, that is the transport, together with what its methods
  use from outside the files at hand: the JSON decoding of the three types its calls
  decode into, and the locator constructors.
\<close>

record 'sv ProjectService =
  restHelper :: "'sv transport"
  json_Project :: "string \<Rightarrow> error + Project"
  json_ProjectReference :: "string \<Rightarrow> error + ProjectReference"
  json_Parameters :: "string \<Rightarrow> error + Parameters option"
  LocatorID :: "string \<Rightarrow> Locator"
  LocatorName :: "string \<Rightarrow> Locator"
  LocatorUUID :: "string \<Rightarrow> Locator"

definition Get :: "'sv ProjectService \<Rightarrow> Locator \<Rightarrow> 'sv world \<Rightarrow> (Project option \<times> error option) go \<times> 'sv world" where
  "Get s locator w =
     (case getWithFields (restHelper s) (json_Project s) (Locator_String locator) ''$long,uuid'' ''project'' w of
        (Inl err, w') \<Rightarrow> (Return (None, Some err), w')
      | (Inr out, w') \<Rightarrow>
          (case Project_Parameters out of
             None \<Rightarrow> (Panic, w')
           | Some ps \<Rightarrow> (Return (Some (out\<lparr>Project_Parameters := Some (NonInherited ps)\<rparr>), None), w')))"

definition GetByID :: "'sv ProjectService \<Rightarrow> string \<Rightarrow> 'sv world \<Rightarrow> (Project option \<times> error option) go \<times> 'sv world" where
  "GetByID s ident w = Get s (LocatorID s ident) w"

definition GetByName :: "'sv ProjectService \<Rightarrow> string \<Rightarrow> 'sv world \<Rightarrow> (Project option \<times> error option) go \<times> 'sv world" where
  "GetByName s name w = Get s (LocatorName s name) w"

definition GetByUUID :: "'sv ProjectService \<Rightarrow> string \<Rightarrow> 'sv world \<Rightarrow> (Project option \<times> error option) go \<times> 'sv world" where
  "GetByUUID s uuid w = Get s (LocatorUUID s uuid) w"

definition DeleteLocator :: "'sv ProjectService \<Rightarrow> Locator \<Rightarrow> 'sv world \<Rightarrow> error option \<times> 'sv world" where
  "DeleteLocator s locator w = deleteByIDWithSling (restHelper s) (Locator_String locator) ''project'' w"

definition Delete :: "'sv ProjectService \<Rightarrow> string \<Rightarrow> 'sv world \<Rightarrow> error option \<times> 'sv world" where
  "Delete s ident w = DeleteLocator s (LocatorID s ident) w"

definition updateStringField ::
  "'sv ProjectService \<Rightarrow> Locator \<Rightarrow> string \<Rightarrow> string \<Rightarrow> string \<Rightarrow> 'sv world \<Rightarrow> error option \<times> 'sv world" where
  "updateStringField s locator fieldName v fieldDescription w =
     (case putTextPlain (restHelper s) (Locator_String locator @ ''/'' @ fieldName) v fieldDescription w of
        (Inl err, w') \<Rightarrow> (Some err, w')
      | (Inr _, w') \<Rightarrow> (None, w'))"

text \<open>
  A \<open>*Project\<close> argument is modelled by the project it points to.
  \<open>updateProject\<close>, statement by statement. Reading \<open>current.Name\<close> through a nil
  \<open>current\<close>, or \<open>project.Parameters.Count\<close> through a nil \<open>Parameters\<close>, is a panic.
  A failed PUT of the parent project returns \<open>nil, nil\<close>.
\<close>

definition updateProject ::
  "'sv ProjectService \<Rightarrow> Locator \<Rightarrow> Project \<Rightarrow> bool \<Rightarrow> 'sv world \<Rightarrow> (Project option \<times> error option) go \<times> 'sv world" where
  "updateProject s locator project isCreate w =
     (case Get s locator w of
        (Panic, w1) \<Rightarrow> (Panic, w1)
      | (Return (_, Some err), w1) \<Rightarrow> (Return (None, Some err), w1)
      | (Return (None, None), w1) \<Rightarrow> (Panic, w1)
      | (Return (Some current, None), w1) \<Rightarrow>
     (case (if Project_Name current \<noteq> Project_Name project
            then updateStringField s locator ''name'' (Project_Name project) ''project name'' w1
            else (None, w1)) of
        (Some err, w2) \<Rightarrow> (Return (None, Some err), w2)
      | (None, w2) \<Rightarrow>
     (case (if Project_Description current \<noteq> Project_Description project
            then updateStringField s locator ''description'' (Project_Description project) ''project description'' w2
            else (None, w2)) of
        (Some err, w3) \<Rightarrow> (Return (None, Some err), w3)
      | (None, w3) \<Rightarrow>
     (case (if Project_ID current \<noteq> Project_ID project
            then updateStringField s locator ''id'' (Project_ID project) ''project id'' w3
            else (None, w3)) of
        (Some err, w4) \<Rightarrow> (Return (None, Some err), w4)
      | (None, w4) \<Rightarrow>
     (case (if \<not> isCreate
               \<and> (Project_ParentProjectID project \<noteq> [] \<or> Project_ParentProject project \<noteq> None)
               \<and> Project_ParentProjectID current \<noteq> Project_ParentProjectID project
            then (case put (restHelper s) (json_ProjectReference s) (Project_ID project @ ''/parentProject'')
                         (JSON_ProjectReference (Project_ParentProject project)) ''parent project'' w4 of
                    (Inl err, w') \<Rightarrow> (Some err, w')
                  | (Inr _, w') \<Rightarrow> (None, w'))
            else (None, w4)) of
        (Some err, w5) \<Rightarrow> (Return (None, None), w5)
      | (None, w5) \<Rightarrow>
     (case Project_Parameters project of
        None \<Rightarrow> (Panic, w5)
      | Some parameters \<Rightarrow>
     (case (if Parameters_Count parameters > 0
            then (case put (restHelper s) (json_Parameters s) (Project_ID project @ ''/parameters'')
                         (JSON_Parameters (Project_Parameters project)) ''project parameters'' w5 of
                    (Inl err, w') \<Rightarrow> (Some err, w')
                  | (Inr _, w') \<Rightarrow> (None, w'))
            else (None, w5)) of
        (Some err, w6) \<Rightarrow> (Return (None, Some err), w6)
      | (None, w6) \<Rightarrow>
     (case Get s locator w6 of
        (Panic, w7) \<Rightarrow> (Panic, w7)
      | (Return (_, Some err), w7) \<Rightarrow> (Return (None, Some err), w7)
      | (Return (out, None), w7) \<Rightarrow> (Return (out, None), w7)))))))))"

definition Update :: "'sv ProjectService \<Rightarrow> Project \<Rightarrow> 'sv world \<Rightarrow> (Project option \<times> error option) go \<times> 'sv world" where
  "Update s project w = updateProject s (LocatorUUID s (Project_UUID project)) project False w"

text \<open>
  \<open>Create\<close> writes to the project it is given (\<open>project.ID = created.ID\<close>): the model
  returns, next to the result, the value the caller's project holds after the call.
\<close>

definition Create ::
  "'sv ProjectService \<Rightarrow> Project \<Rightarrow> 'sv world \<Rightarrow> ((Project option \<times> error option) go \<times> Project) \<times> 'sv world" where
  "Create s project w =
     (case post (restHelper s) (json_Project s) [] (JSON_Project project) ''project'' w of
        (Inl err, w1) \<Rightarrow> ((Return (None, Some err), project), w1)
      | (Inr created, w1) \<Rightarrow>
          (let project' = project\<lparr>Project_ID := Project_ID created\<rparr> in
           case updateProject s (LocatorID s (Project_ID created)) project' True w1 of
             (Panic, w2) \<Rightarrow> ((Panic, project'), w2)
           | (Return (_, Some err), w2) \<Rightarrow> ((Return (None, Some err), project'), w2)
           | (Return (updated, None), w2) \<Rightarrow> ((Return (updated, None), project'), w2)))"

section \<open>Properties\<close>

text \<open>
  Modelled from the spec: the property collection (\<open>NewProperty\<close>, \<open>NewProperties\<close>,
  \<open>AddOrReplaceValue\<close>, \<open>GetOk\<close>, \<open>Map\<close>) is not among the files at hand. The spec
  describes it as an ordered key-value collection with secure-value masking, used to
  serialize feature payloads. \<open>AddOrReplaceValue\<close> sets the value of the first item of
  that name, or appends a new item when there is none; \<open>GetOk\<close> is the value of the
  first item of that name; \<open>Map\<close> maps each name to its value, a later item overriding
  an earlier one. The spec does not say where the masking of secure values happens (its
  glossary and its section 6 ascribe it to the remote system): \<open>Properties_Map\<close> takes a
  flag saying whether the map itself leaves out the items of a secure name, those that
  start with \<open>secure:\<close>, and what is proved of the map below is proved for both values of
  the flag.
\<close>

record Property =
  Property_Name :: string
  Property_Value :: string

record Properties =
  Properties_Count :: int
  Properties_Items :: "Property list"

definition NewProperty :: "string \<Rightarrow> string \<Rightarrow> Property" where
  "NewProperty name v = \<lparr>Property_Name = name, Property_Value = v\<rparr>"

definition NewProperties :: "Property list \<Rightarrow> Properties" where
  "NewProperties items = \<lparr>Properties_Count = int (length items), Properties_Items = items\<rparr>"

fun replaceFirst :: "string \<Rightarrow> string \<Rightarrow> Property list \<Rightarrow> Property list" where
  "replaceFirst n v [] = []"
| "replaceFirst n v (elem # rest) =
     (if Property_Name elem = n then elem\<lparr>Property_Value := v\<rparr> # rest
      else elem # replaceFirst n v rest)"

definition AddOrReplaceValue :: "Properties \<Rightarrow> string \<Rightarrow> string \<Rightarrow> Properties" where
  "AddOrReplaceValue p n v =
     (if n \<in> Property_Name ` set (Properties_Items p)
      then p\<lparr>Properties_Items := replaceFirst n v (Properties_Items p)\<rparr>
      else p\<lparr>Properties_Count := Properties_Count p + 1,
             Properties_Items := Properties_Items p @ [NewProperty n v]\<rparr>)"

definition GetOk :: "Properties \<Rightarrow> string \<Rightarrow> string \<times> bool" where
  "GetOk p key =
     (case find (\<lambda>v. Property_Name v = key) (Properties_Items p) of
        None \<Rightarrow> ([], False)
      | Some v \<Rightarrow> (Property_Value v, True))"

definition secure :: "string \<Rightarrow> bool" where
  "secure name = prefix ''secure:'' name"

definition Properties_Map :: "bool \<Rightarrow> Properties \<Rightarrow> (string \<rightharpoonup> string)" where
  "Properties_Map masking p =
     fold (\<lambda>item m. if masking \<and> secure (Property_Name item) then m
                     else m(Property_Name item \<mapsto> Property_Value item))
          (Properties_Items p) Map.empty"

text \<open>Indexing a Go map, \<open>m[key]\<close>: the value under the key, the empty string when there is none.\<close>

definition Map_index :: "(string \<rightharpoonup> string) \<Rightarrow> string \<Rightarrow> string" where
  "Map_index m key = (case m key of None \<Rightarrow> [] | Some v \<Rightarrow> v)"

section \<open>The Slack connection project feature\<close>

record ProjectFeatureSlackConnectionOptions =
  ClientId :: string
  ClientSecret :: string
  DisplayName :: string
  ProviderType :: string
  Token :: string

record ProjectFeatureSlackConnection =
  Slack_id :: string
  Slack_projectID :: string
  Slack_Options :: ProjectFeatureSlackConnectionOptions

definition NewProjectFeatureSlackConnection ::
  "string \<Rightarrow> ProjectFeatureSlackConnectionOptions \<Rightarrow> ProjectFeatureSlackConnection" where
  "NewProjectFeatureSlackConnection projectID options =
     \<lparr>Slack_id = [], Slack_projectID = projectID, Slack_Options = options\<rparr>"

definition Slack_Properties :: "ProjectFeatureSlackConnection \<Rightarrow> Properties" where
  "Slack_Properties f =
     NewProperties
       [NewProperty ''clientId'' (ClientId (Slack_Options f)),
        NewProperty ''secure:clientSecret'' (ClientSecret (Slack_Options f)),
        NewProperty ''displayName'' (DisplayName (Slack_Options f)),
        NewProperty ''providerType'' ''slackConnection'',
        NewProperty ''secure:token'' (Token (Slack_Options f))]"

text \<open>
  Modelled from the spec: \<open>projectFeatureJSON\<close> is declared outside the files at hand.
  It is the decoded server response for a project feature; the loader reads its \<open>ID\<close>
  and looks three names up in its \<open>Properties\<close>, which are taken as a collection that
  is there.
\<close>

record projectFeatureJSON =
  projectFeatureJSON_ID :: string
  projectFeatureJSON_Properties :: Properties

definition loadProjectFeatureSlackConnection ::
  "string \<Rightarrow> projectFeatureJSON \<Rightarrow> ProjectFeatureSlackConnection option \<times> error option" where
  "loadProjectFeatureSlackConnection projectID feature =
     (let settings = \<lparr>Slack_id = projectFeatureJSON_ID feature, Slack_projectID = projectID,
                       Slack_Options = \<lparr>ClientId = [], ClientSecret = [], DisplayName = [],
                                         ProviderType = [], Token = []\<rparr>\<rparr>;
          settings = (case GetOk (projectFeatureJSON_Properties feature) ''clientId'' of
                        (clientId, ok) \<Rightarrow>
                          if ok then settings\<lparr>Slack_Options := (Slack_Options settings)\<lparr>ClientId := clientId\<rparr>\<rparr>
                          else settings);
          settings = (case GetOk (projectFeatureJSON_Properties feature) ''displayName'' of
                        (displayName, ok) \<Rightarrow>
                          if ok then settings\<lparr>Slack_Options := (Slack_Options settings)\<lparr>DisplayName := displayName\<rparr>\<rparr>
                          else settings);
          settings = (case GetOk (projectFeatureJSON_Properties feature) ''providerType'' of
                        (providerType, ok) \<Rightarrow>
                          if ok then settings\<lparr>Slack_Options := (Slack_Options settings)\<lparr>ProviderType := providerType\<rparr>\<rparr>
                          else settings)
      in (Some settings, None))"

section \<open>The Go build feature\<close>

record FeatureGolang =
  FeatureGolang_id :: string
  FeatureGolang_disabled :: bool
  FeatureGolang_buildTypeID :: string
  FeatureGolang_properties :: "Properties option"

text \<open>
  Modelled from the spec: \<open>buildFeatureJSON\<close> is declared outside the files at hand.
  It is the serialized shape of a build feature; its fields are those \<open>MarshalJSON\<close>
  fills and \<open>UnmarshalJSON\<close> reads, pointers being options.
\<close>

record buildFeatureJSON =
  buildFeatureJSON_ID :: string
  buildFeatureJSON_Disabled :: "bool option"
  buildFeatureJSON_Properties :: "Properties option"
  buildFeatureJSON_Inherited :: "bool option"
  buildFeatureJSON_Type :: string

definition NewFeatureGolang :: FeatureGolang where
  "NewFeatureGolang =
     \<lparr>FeatureGolang_id = [], FeatureGolang_disabled = False, FeatureGolang_buildTypeID = [],
      FeatureGolang_properties = Some (NewProperties [])\<rparr>"

definition FeatureGolang_Type :: "FeatureGolang \<Rightarrow> string" where
  "FeatureGolang_Type f = ''golang''"

text \<open>
  \<open>MarshalJSON\<close> puts the receiver's own \<open>properties\<close> pointer into \<open>out\<close> and updates
  the collection through it, so the receiver sees the update: the model returns the
  receiver after the call next to the result. \<open>json_Marshal\<close> is \<open>json.Marshal\<close> on the
  value built. Updating a collection through a nil pointer is a panic.
\<close>

definition MarshalJSON ::
  "(buildFeatureJSON \<Rightarrow> error + string) \<Rightarrow> FeatureGolang \<Rightarrow> (string option \<times> error option) go \<times> FeatureGolang" where
  "MarshalJSON json_Marshal f =
     (case FeatureGolang_properties f of
        None \<Rightarrow> (Panic, f)
      | Some properties \<Rightarrow>
          (let properties' = AddOrReplaceValue properties ''test.format'' ''json'';
               out = \<lparr>buildFeatureJSON_ID = FeatureGolang_id f,
                      buildFeatureJSON_Disabled = Some (FeatureGolang_disabled f),
                      buildFeatureJSON_Properties = Some properties',
                      buildFeatureJSON_Inherited = Some False,
                      buildFeatureJSON_Type = FeatureGolang_Type f\<rparr>;
               f' = f\<lparr>FeatureGolang_properties := Some properties'\<rparr>
           in case json_Marshal out of
                Inl err \<Rightarrow> (Return (None, Some err), f')
              | Inr bytes \<Rightarrow> (Return (Some bytes, None), f')))"

text \<open>
  \<open>UnmarshalJSON\<close> writes to the receiver field by field; \<open>json_Unmarshal\<close> is
  \<open>json.Unmarshal\<close> into a zero \<open>buildFeatureJSON\<close>. Reading \<open>aux.Properties.Items\<close>
  through a nil \<open>Properties\<close> is a panic, after \<open>id\<close> and \<open>disabled\<close> are written.
\<close>

definition UnmarshalJSON ::
  "(string \<Rightarrow> error + buildFeatureJSON) \<Rightarrow> FeatureGolang \<Rightarrow> string \<Rightarrow> error option go \<times> FeatureGolang" where
  "UnmarshalJSON json_Unmarshal f data =
     (case json_Unmarshal data of
        Inl err \<Rightarrow> (Return (Some err), f)
      | Inr aux \<Rightarrow>
          (let f1 = f\<lparr>FeatureGolang_id := buildFeatureJSON_ID aux\<rparr>;
               disabled = (case buildFeatureJSON_Disabled aux of None \<Rightarrow> False | Some d \<Rightarrow> d);
               f2 = f1\<lparr>FeatureGolang_disabled := disabled\<rparr>
           in case buildFeatureJSON_Properties aux of
                None \<Rightarrow> (Panic, f2)
              | Some ps \<Rightarrow> (Return None, f2\<lparr>FeatureGolang_properties := Some (NewProperties (Properties_Items ps))\<rparr>)))"

section \<open>The steps of \<open>updateProject\<close>\<close>

text \<open>
  For the proofs, the body of \<open>updateProject\<close> is cut at its statements: each definition
  below is the rest of the body from one statement on, with the same text as above.
  \<open>updateProject_steps\<close> below shows that they make up \<open>updateProject\<close>.
\<close>

definition updateProject_refresh ::
  "'sv ProjectService \<Rightarrow> Locator \<Rightarrow> 'sv world \<Rightarrow> (Project option \<times> error option) go \<times> 'sv world" where
  "updateProject_refresh s locator w6 =
     (case Get s locator w6 of
        (Panic, w7) \<Rightarrow> (Panic, w7)
      | (Return (_, Some err), w7) \<Rightarrow> (Return (None, Some err), w7)
      | (Return (out, None), w7) \<Rightarrow> (Return (out, None), w7))"

definition updateProject_parameters ::
  "'sv ProjectService \<Rightarrow> Locator \<Rightarrow> Project \<Rightarrow> 'sv world \<Rightarrow> (Project option \<times> error option) go \<times> 'sv world" where
  "updateProject_parameters s locator project w5 =
     (case Project_Parameters project of
        None \<Rightarrow> (Panic, w5)
      | Some parameters \<Rightarrow>
     (case (if Parameters_Count parameters > 0
            then (case put (restHelper s) (json_Parameters s) (Project_ID project @ ''/parameters'')
                         (JSON_Parameters (Project_Parameters project)) ''project parameters'' w5 of
                    (Inl err, w') \<Rightarrow> (Some err, w')
                  | (Inr _, w') \<Rightarrow> (None, w'))
            else (None, w5)) of
        (Some err, w6) \<Rightarrow> (Return (None, Some err), w6)
      | (None, w6) \<Rightarrow> updateProject_refresh s locator w6))"

definition updateProject_parent ::
  "'sv ProjectService \<Rightarrow> Locator \<Rightarrow> Project \<Rightarrow> bool \<Rightarrow> Project \<Rightarrow> 'sv world \<Rightarrow> (Project option \<times> error option) go \<times> 'sv world" where
  "updateProject_parent s locator project isCreate current w4 =
     (case (if \<not> isCreate
               \<and> (Project_ParentProjectID project \<noteq> [] \<or> Project_ParentProject project \<noteq> None)
               \<and> Project_ParentProjectID current \<noteq> Project_ParentProjectID project
            then (case put (restHelper s) (json_ProjectReference s) (Project_ID project @ ''/parentProject'')
                         (JSON_ProjectReference (Project_ParentProject project)) ''parent project'' w4 of
                    (Inl err, w') \<Rightarrow> (Some err, w')
                  | (Inr _, w') \<Rightarrow> (None, w'))
            else (None, w4)) of
        (Some err, w5) \<Rightarrow> (Return (None, None), w5)
      | (None, w5) \<Rightarrow> updateProject_parameters s locator project w5)"

definition updateProject_id ::
  "'sv ProjectService \<Rightarrow> Locator \<Rightarrow> Project \<Rightarrow> bool \<Rightarrow> Project \<Rightarrow> 'sv world \<Rightarrow> (Project option \<times> error option) go \<times> 'sv world" where
  "updateProject_id s locator project isCreate current w3 =
     (case (if Project_ID current \<noteq> Project_ID project
            then updateStringField s locator ''id'' (Project_ID project) ''project id'' w3
            else (None, w3)) of
        (Some err, w4) \<Rightarrow> (Return (None, Some err), w4)
      | (None, w4) \<Rightarrow> updateProject_parent s locator project isCreate current w4)"

definition updateProject_description ::
  "'sv ProjectService \<Rightarrow> Locator \<Rightarrow> Project \<Rightarrow> bool \<Rightarrow> Project \<Rightarrow> 'sv world \<Rightarrow> (Project option \<times> error option) go \<times> 'sv world" where
  "updateProject_description s locator project isCreate current w2 =
     (case (if Project_Description current \<noteq> Project_Description project
            then updateStringField s locator ''description'' (Project_Description project) ''project description'' w2
            else (None, w2)) of
        (Some err, w3) \<Rightarrow> (Return (None, Some err), w3)
      | (None, w3) \<Rightarrow> updateProject_id s locator project isCreate current w3)"

definition updateProject_name ::
  "'sv ProjectService \<Rightarrow> Locator \<Rightarrow> Project \<Rightarrow> bool \<Rightarrow> Project \<Rightarrow> 'sv world \<Rightarrow> (Project option \<times> error option) go \<times> 'sv world" where
  "updateProject_name s locator project isCreate current w1 =
     (case (if Project_Name current \<noteq> Project_Name project
            then updateStringField s locator ''name'' (Project_Name project) ''project name'' w1
            else (None, w1)) of
        (Some err, w2) \<Rightarrow> (Return (None, Some err), w2)
      | (None, w2) \<Rightarrow> updateProject_description s locator project isCreate current w2)"

text \<open>
  \<open>only_sends P w w'\<close>: the world \<open>w'\<close> is \<open>w\<close> after more requests were sent, each of
  them satisfying \<open>P\<close>. \<open>permitted locator current project isCreate\<close> holds of the
  requests an update of \<open>project\<close> over the server's \<open>current\<close> may send: the GET of the
  project, and the PUT of a field under the condition the code puts on it.
\<close>

definition only_sends :: "(request \<Rightarrow> bool) \<Rightarrow> 'sv world \<Rightarrow> 'sv world \<Rightarrow> bool" where
  "only_sends P w w' \<longleftrightarrow> (\<exists>rs. sent w' = sent w @ rs \<and> list_all P rs)"

definition permitted :: "Locator \<Rightarrow> Project \<Rightarrow> Project \<Rightarrow> bool \<Rightarrow> request \<Rightarrow> bool" where
  "permitted locator current project isCreate r \<longleftrightarrow>
     r = \<lparr>Method = GET, Path = Locator_String locator, Fields = ''$long,uuid'', Payload = NoBody\<rparr>
   \<or> (r = \<lparr>Method = PUT, Path = Locator_String locator @ ''/name'', Fields = [],
             Payload = TextPlain (Project_Name project)\<rparr>
      \<and> Project_Name current \<noteq> Project_Name project)
   \<or> (r = \<lparr>Method = PUT, Path = Locator_String locator @ ''/description'', Fields = [],
             Payload = TextPlain (Project_Description project)\<rparr>
      \<and> Project_Description current \<noteq> Project_Description project)
   \<or> (r = \<lparr>Method = PUT, Path = Locator_String locator @ ''/id'', Fields = [],
             Payload = TextPlain (Project_ID project)\<rparr>
      \<and> Project_ID current \<noteq> Project_ID project)
   \<or> (r = \<lparr>Method = PUT, Path = Project_ID project @ ''/parentProject'', Fields = [],
             Payload = JSON_ProjectReference (Project_ParentProject project)\<rparr>
      \<and> \<not> isCreate \<and> Project_ParentProjectID current \<noteq> Project_ParentProjectID project)
   \<or> (r = \<lparr>Method = PUT, Path = Project_ID project @ ''/parameters'', Fields = [],
             Payload = JSON_Parameters (Project_Parameters project)\<rparr>
      \<and> (\<exists>parameters. Project_Parameters project = Some parameters \<and> Parameters_Count parameters > 0))"

section \<open>Concrete instances\<close>

text \<open>
  A stub of the remote server for the closed instances below. It answers each request by
  a fixed function of the request, and its state is the list of the writes it has
  applied: the requests other than GET that it answered with 200, 201 or 204.
\<close>

definition stub_transport :: "(request \<Rightarrow> error + response) \<Rightarrow> request list transport" where
  "stub_transport answer =
     \<lparr>Request_error = (\<lambda>rq. None),
      Do = (\<lambda>applied rq.
              (answer rq,
               case answer rq of
                 Inl err \<Rightarrow> applied
               | Inr r \<Rightarrow> if Method rq \<noteq> GET \<and> StatusCode r \<in> {200, 201, 204} then applied @ [rq] else applied))\<rparr>"

definition w0 :: "request list world" where
  "w0 = \<lparr>server = [], sent = []\<rparr>"

text \<open>An answer that is the same for every request, and a decoder of a JSON boolean.\<close>

definition reply :: "int \<Rightarrow> string \<Rightarrow> request \<Rightarrow> error + response" where
  "reply status body rq = Inr \<lparr>StatusCode = status, Body = Inr body\<rparr>"

definition json_flag :: "string \<Rightarrow> error + bool" where
  "json_flag bytes =
     (if bytes = ''true'' then Inr True
      else if bytes = ''false'' then Inr False
      else Inl (DecodeError ''invalid character''))"

text \<open>
  A stub of the project service over the stub server. Its locator constructors format
  \<open>id:<value>\<close> and \<open>name:<value>\<close>, the two segments the spec gives, and
  \<open>uuid:<value>\<close> for a UUID; they are a choice of the stub, as is its decoding of a
  project, which is fixed by the instance.
\<close>

definition stub_service ::
  "(request \<Rightarrow> error + response) \<Rightarrow> (string \<Rightarrow> error + Project) \<Rightarrow> request list ProjectService" where
  "stub_service answer decode =
     \<lparr>restHelper = stub_transport answer,
      json_Project = decode,
      json_ProjectReference = (\<lambda>bytes. Inr \<lparr>ProjectReference_ID = bytes, ProjectReference_Name = [],
                                  ProjectReference_Description = [], ProjectReference_Href = [],
                                  ProjectReference_WebURL = []\<rparr>),
      json_Parameters = (\<lambda>bytes. Inr None),
      LocatorID = (\<lambda>v. Locator (''id:'' @ v)),
      LocatorName = (\<lambda>v. Locator (''name:'' @ v)),
      LocatorUUID = (\<lambda>v. Locator (''uuid:'' @ v))\<rparr>"

definition sample_parameters :: Parameters where
  "sample_parameters =
     \<lparr>Parameters_Count = 1, Parameters_Href = [],
      Parameters_Items = [\<lparr>Parameter_Name = ''env.stage'', Parameter_Value = ''prod'', Parameter_Inherited = False\<rparr>]\<rparr>"

definition sample_project :: Project where
  "sample_project =
     \<lparr>Project_Archived = None, Project_Description = ''first'', Project_Href = [],
      Project_ID = ''P1'', Project_Name = ''One'', Project_Parameters = Some sample_parameters,
      Project_ParentProject = None, Project_ParentProjectID = [],
      Project_WebURL = [], Project_BuildTypes = [], Project_UUID = ''u-1''\<rparr>"

definition moved_project :: Project where
  "moved_project =
     sample_project\<lparr>Project_ParentProject :=
                       Some \<lparr>ProjectReference_ID = ''Other'', ProjectReference_Name = [],
                             ProjectReference_Description = [], ProjectReference_Href = [],
                             ProjectReference_WebURL = []\<rparr>,
                    Project_ParentProjectID := ''Other''\<rparr>"

definition refuse_parent :: "request \<Rightarrow> error + response" where
  "refuse_parent rq =
     (if Method rq = PUT \<and> Path rq = ''P1/parentProject''
      then Inr \<lparr>StatusCode = 500, Body = Inr ''boom''\<rparr>
      else Inr \<lparr>StatusCode = 200, Body = Inr ''ok''\<rparr>)"

definition always_sample :: "string \<Rightarrow> error + Project" where
  "always_sample bytes = Inr sample_project"

definition echo_service :: "request list ProjectService" where
  "echo_service = stub_service (reply 200 ''ok'') always_sample"

definition refusing_service :: "request list ProjectService" where
  "refusing_service = stub_service refuse_parent always_sample"

definition renamed_project :: Project where
  "renamed_project = sample_project\<lparr>Project_Name := ''Renamed'', Project_Parameters := Some NewParametersEmpty\<rparr>"

definition renamed_moved_project :: Project where
  "renamed_moved_project = moved_project\<lparr>Project_Name := ''Renamed''\<rparr>"

definition new_project :: Project where
  "new_project =
     \<lparr>Project_Archived = None, Project_Description = ''second'', Project_Href = [],
      Project_ID = [], Project_Name = ''One'', Project_Parameters = Some NewParametersEmpty,
      Project_ParentProject = None, Project_ParentProjectID = [],
      Project_WebURL = [], Project_BuildTypes = [], Project_UUID = []\<rparr>"

definition post_only :: "request \<Rightarrow> error + response" where
  "post_only rq =
     (if Method rq = POST then Inr \<lparr>StatusCode = 200, Body = Inr ''created''\<rparr>
      else Inr \<lparr>StatusCode = 404, Body = Inr ''gone''\<rparr>)"

definition post_only_service :: "request list ProjectService" where
  "post_only_service = stub_service post_only always_sample"

definition down_service :: "request list ProjectService" where
  "down_service = stub_service (reply 500 ''down'') always_sample"

definition inherited_parameters :: Parameters where
  "inherited_parameters =
     \<lparr>Parameters_Count = 2, Parameters_Href = ''/app/rest/projects/id:P1/parameters'',
      Parameters_Items =
        [\<lparr>Parameter_Name = ''env.stage'', Parameter_Value = ''prod'', Parameter_Inherited = False\<rparr>,
         \<lparr>Parameter_Name = ''env.root'', Parameter_Value = ''/srv'', Parameter_Inherited = True\<rparr>]\<rparr>"

definition always_inherited :: "string \<Rightarrow> error + Project" where
  "always_inherited bytes = Inr (sample_project\<lparr>Project_Parameters := Some inherited_parameters\<rparr>)"

definition inheriting_service :: "request list ProjectService" where
  "inheriting_service = stub_service (reply 200 ''ok'') always_inherited"

text \<open>Stubs of \<open>json.Marshal\<close> and \<open>json.Unmarshal\<close> for the build feature.\<close>

definition marshal_stub :: "buildFeatureJSON \<Rightarrow> error + string" where
  "marshal_stub out = Inr ''{}''"

definition feature_without_disabled :: buildFeatureJSON where
  "feature_without_disabled =
     \<lparr>buildFeatureJSON_ID = ''F1'', buildFeatureJSON_Disabled = None,
      buildFeatureJSON_Properties = Some (NewProperties []),
      buildFeatureJSON_Inherited = None, buildFeatureJSON_Type = ''golang''\<rparr>"

definition unmarshal_stub :: "string \<Rightarrow> error + buildFeatureJSON" where
  "unmarshal_stub data = Inr feature_without_disabled"

definition xml_feature :: FeatureGolang where
  "xml_feature =
     NewFeatureGolang\<lparr>FeatureGolang_properties :=
        Some (NewProperties [NewProperty ''a'' ''1'', NewProperty ''test.format'' ''xml''])\<rparr>"

text \<open>A server's property list that echoes the secure values of a Slack connection.\<close>

definition echoed_feature :: projectFeatureJSON where
  "echoed_feature =
     \<lparr>projectFeatureJSON_ID = ''PROJECT_EXT_1'',
      projectFeatureJSON_Properties =
        NewProperties
          [NewProperty ''clientId'' ''abcd.1234'',
           NewProperty ''secure:clientSecret'' ''xyz'',
           NewProperty ''displayName'' ''Notifier'',
           NewProperty ''providerType'' ''slackConnection'',
           NewProperty ''secure:token'' ''ABCD1234EFG'']\<rparr>"

section \<open>The requests a call sends\<close>

lemma updateProject_steps:
  "updateProject s locator project isCreate w =
     (case Get s locator w of
        (Panic, w1) \<Rightarrow> (Panic, w1)
      | (Return (_, Some err), w1) \<Rightarrow> (Return (None, Some err), w1)
      | (Return (None, None), w1) \<Rightarrow> (Panic, w1)
      | (Return (Some current, None), w1) \<Rightarrow> updateProject_name s locator project isCreate current w1)"
  by (simp only: updateProject_def updateProject_name_def updateProject_description_def
      updateProject_id_def updateProject_parent_def updateProject_parameters_def updateProject_refresh_def)


lemma only_sends_refl: "only_sends P w w"
  by (simp add: only_sends_def)

lemma only_sends_trans: "only_sends P w w' \<Longrightarrow> only_sends P w' w'' \<Longrightarrow> only_sends P w w''"
  by (auto simp: only_sends_def)

lemma only_sends_one: "sent w' = sent w @ [r] \<Longrightarrow> P r \<Longrightarrow> only_sends P w w'"
  by (simp add: only_sends_def)

lemma only_sends_opt: "sent w' = sent w @ (if c then [r] else []) \<Longrightarrow> P r \<Longrightarrow> only_sends P w w'"
  by (simp add: only_sends_def)

lemma httpClient_Do_sent: "httpClient_Do t rq w = (r, w') \<Longrightarrow> sent w' = sent w @ [rq]"
  by (auto simp: httpClient_Do_def split: prod.splits)

lemma getWithFields_sent:
  "getWithFields t dec path fs res w = (r, w') \<Longrightarrow>
     sent w' = sent w @ [\<lparr>Method = GET, Path = path, Fields = fs, Payload = NoBody\<rparr>]"
  by (auto simp: getWithFields_def split: prod.splits sum.splits if_splits dest: httpClient_Do_sent)

lemma put_sent:
  "put t dec path data res w = (r, w') \<Longrightarrow>
     sent w' = sent w @ [\<lparr>Method = PUT, Path = path, Fields = [], Payload = data\<rparr>]"
  by (auto simp: put_def split: prod.splits sum.splits if_splits dest: httpClient_Do_sent)

lemma post_sent:
  "post t dec path data res w = (r, w') \<Longrightarrow>
     sent w' = sent w @ [\<lparr>Method = POST, Path = path, Fields = [], Payload = data\<rparr>]"
  by (auto simp: post_def split: prod.splits sum.splits if_splits dest: httpClient_Do_sent)

lemma putTextPlain_sent:
  "putTextPlain t path data res w = (r, w') \<Longrightarrow>
     sent w' = sent w @ (if Request_error t \<lparr>Method = PUT, Path = path, Fields = [], Payload = TextPlain data\<rparr> = None
                         then [\<lparr>Method = PUT, Path = path, Fields = [], Payload = TextPlain data\<rparr>] else [])"
  by (auto simp: putTextPlain_def Let_def split: prod.splits sum.splits if_splits option.splits dest: httpClient_Do_sent)

lemma updateStringField_sent:
  "updateStringField s locator fieldName v d w = (r, w') \<Longrightarrow>
     sent w' = sent w @ (if Request_error (restHelper s) \<lparr>Method = PUT, Path = Locator_String locator @ ''/'' @ fieldName, Fields = [], Payload = TextPlain v\<rparr> = None
                         then [\<lparr>Method = PUT, Path = Locator_String locator @ ''/'' @ fieldName, Fields = [], Payload = TextPlain v\<rparr>] else [])"
  by (auto simp: updateStringField_def split: prod.splits sum.splits dest: putTextPlain_sent)

lemma Get_sent:
  "Get s locator w = (r, w') \<Longrightarrow>
     sent w' = sent w @ [\<lparr>Method = GET, Path = Locator_String locator, Fields = ''$long,uuid'', Payload = NoBody\<rparr>]"
  by (auto simp: Get_def split: prod.splits sum.splits option.splits dest: getWithFields_sent)

lemma guarded_then_only_sends:
  assumes "c \<Longrightarrow> only_sends P w (snd step)" and "\<And>w'. only_sends P w' (snd (k w'))"
  shows "only_sends P w (snd (case (if c then step else (None, w)) of
                                (Some err, w') \<Rightarrow> (h err, w') | (None, w') \<Rightarrow> k w'))"
proof (cases c)
  case True
  obtain r w' where st: "step = (r, w')" by (cases step)
  with True assms(1) have "only_sends P w w'" by simp
  then show ?thesis
    using True st assms(2)[of w'] by (cases r) (auto intro: only_sends_trans)
next
  case False
  then show ?thesis using assms(2)[of w] by simp
qed

lemma refresh_only_sends:
  "only_sends (permitted locator current project isCreate) w (snd (updateProject_refresh s locator w))"
proof (cases "Get s locator w")
  case (Pair r w')
  from Get_sent[OF Pair] have "only_sends (permitted locator current project isCreate) w w'"
    by (rule only_sends_one) (simp add: permitted_def)
  then show ?thesis
    using Pair by (auto simp: updateProject_refresh_def split: go.splits option.splits prod.splits)
qed

lemma put_step_only_sends:
  assumes "P \<lparr>Method = PUT, Path = path, Fields = [], Payload = data\<rparr>"
  shows "only_sends P w (snd (case put t dec path data res w of
                                (Inl err, w') \<Rightarrow> (Some err, w') | (Inr x, w') \<Rightarrow> (None, w')))"
proof (cases "put t dec path data res w")
  case (Pair r w')
  from put_sent[OF Pair] assms have "only_sends P w w'" by (rule only_sends_one)
  then show ?thesis using Pair by (cases r) auto
qed

lemma updateStringField_only_sends:
  assumes "P \<lparr>Method = PUT, Path = Locator_String locator @ ''/'' @ fieldName, Fields = [], Payload = TextPlain v\<rparr>"
  shows "only_sends P w (snd (updateStringField s locator fieldName v d w))"
proof (cases "updateStringField s locator fieldName v d w")
  case (Pair r w')
  from updateStringField_sent[OF Pair] assms have "only_sends P w w'" by (rule only_sends_opt)
  then show ?thesis using Pair by simp
qed

lemma parameters_only_sends:
  "only_sends (permitted locator current project isCreate) w (snd (updateProject_parameters s locator project w))"
proof (cases "Project_Parameters project")
  case None
  then show ?thesis by (simp add: updateProject_parameters_def only_sends_refl)
next
  case (Some parameters)
  show ?thesis
    unfolding updateProject_parameters_def Some option.case
  proof (rule guarded_then_only_sends)
    assume "0 < Parameters_Count parameters"
    then show "only_sends (permitted locator current project isCreate) w
       (snd (case put (restHelper s) (json_Parameters s) (Project_ID project @ ''/parameters'')
                   (JSON_Parameters (Some parameters)) ''project parameters'' w of
               (Inl err, w') \<Rightarrow> (Some err, w') | (Inr x, w') \<Rightarrow> (None, w')))"
      using Some by (intro put_step_only_sends) (simp add: permitted_def)
  qed (rule refresh_only_sends)
qed

lemma parent_only_sends:
  "only_sends (permitted locator current project isCreate) w
     (snd (updateProject_parent s locator project isCreate current w))"
  unfolding updateProject_parent_def
proof (rule guarded_then_only_sends)
  assume "\<not> isCreate
      \<and> (Project_ParentProjectID project \<noteq> [] \<or> Project_ParentProject project \<noteq> None)
      \<and> Project_ParentProjectID current \<noteq> Project_ParentProjectID project"
  then show "only_sends (permitted locator current project isCreate) w
     (snd (case put (restHelper s) (json_ProjectReference s) (Project_ID project @ ''/parentProject'')
                 (JSON_ProjectReference (Project_ParentProject project)) ''parent project'' w of
             (Inl err, w') \<Rightarrow> (Some err, w') | (Inr x, w') \<Rightarrow> (None, w')))"
    by (intro put_step_only_sends) (simp add: permitted_def)
qed (rule parameters_only_sends)

lemma id_only_sends:
  "only_sends (permitted locator current project isCreate) w
     (snd (updateProject_id s locator project isCreate current w))"
  unfolding updateProject_id_def
proof (rule guarded_then_only_sends)
  assume "Project_ID current \<noteq> Project_ID project"
  then show "only_sends (permitted locator current project isCreate) w
     (snd (updateStringField s locator ''id'' (Project_ID project) ''project id'' w))"
    by (intro updateStringField_only_sends) (simp add: permitted_def)
qed (rule parent_only_sends)

lemma description_only_sends:
  "only_sends (permitted locator current project isCreate) w
     (snd (updateProject_description s locator project isCreate current w))"
  unfolding updateProject_description_def
proof (rule guarded_then_only_sends)
  assume "Project_Description current \<noteq> Project_Description project"
  then show "only_sends (permitted locator current project isCreate) w
     (snd (updateStringField s locator ''description'' (Project_Description project) ''project description'' w))"
    by (intro updateStringField_only_sends) (simp add: permitted_def)
qed (rule id_only_sends)

lemma name_only_sends:
  "only_sends (permitted locator current project isCreate) w
     (snd (updateProject_name s locator project isCreate current w))"
  unfolding updateProject_name_def
proof (rule guarded_then_only_sends)
  assume "Project_Name current \<noteq> Project_Name project"
  then show "only_sends (permitted locator current project isCreate) w
     (snd (updateStringField s locator ''name'' (Project_Name project) ''project name'' w))"
    by (intro updateStringField_only_sends) (simp add: permitted_def)
qed (rule description_only_sends)

lemma updateProject_only_sends:
  assumes "Get s locator w = (Return (Some current, None), w1)"
  shows "only_sends (permitted locator current project isCreate) w1
           (snd (updateProject s locator project isCreate w))"
  using assms name_only_sends[of locator current project isCreate w1 s]
  by (simp add: updateProject_steps)

section \<open>Status codes of the REST helper\<close>

lemma getWithFields_status:
  assumes "fst (Do t (server w) \<lparr>Method = GET, Path = path, Fields = fs, Payload = NoBody\<rparr>) = Inr resp"
  shows "fst (getWithFields t dec path fs res w) =
           (if StatusCode resp = 200 then Decode dec (Body resp)
            else case Body resp of Inl err \<Rightarrow> Inl err
                 | Inr dt \<Rightarrow> Inl (handleRestError dt (StatusCode resp) ''GET'' res))"
  using assms
  by (auto simp: getWithFields_def httpClient_Do_def split: prod.splits sum.splits)

lemma post_status:
  assumes "fst (Do t (server w) \<lparr>Method = POST, Path = path, Fields = [], Payload = data\<rparr>) = Inr resp"
  shows "fst (post t dec path data res w) =
           (if StatusCode resp = 201 \<or> StatusCode resp = 200 then Decode dec (Body resp)
            else case Body resp of Inl err \<Rightarrow> Inl err
                 | Inr dt \<Rightarrow> Inl (handleRestError dt (StatusCode resp) ''POST'' res))"
  using assms
  by (auto simp: post_def httpClient_Do_def split: prod.splits sum.splits)

lemma put_status:
  assumes "fst (Do t (server w) \<lparr>Method = PUT, Path = path, Fields = [], Payload = data\<rparr>) = Inr resp"
  shows "fst (put t dec path data res w) =
           (if StatusCode resp = 201 \<or> StatusCode resp = 200 then Decode dec (Body resp)
            else case Body resp of Inl err \<Rightarrow> Inl err
                 | Inr dt \<Rightarrow> Inl (handleRestError dt (StatusCode resp) ''PUT'' res))"
  using assms
  by (auto simp: put_def httpClient_Do_def split: prod.splits sum.splits)

lemma putTextPlain_status:
  assumes "Request_error t \<lparr>Method = PUT, Path = path, Fields = [], Payload = TextPlain data\<rparr> = None"
      and "fst (Do t (server w) \<lparr>Method = PUT, Path = path, Fields = [], Payload = TextPlain data\<rparr>) = Inr resp"
  shows "fst (putTextPlain t path data res w) =
           (case Body resp of Inl err \<Rightarrow> Inl err
            | Inr bodyBytes \<Rightarrow>
                if StatusCode resp = 201 \<or> StatusCode resp = 200 then Inr bodyBytes
                else Inl (handleRestError bodyBytes (StatusCode resp) ''PUT'' res))"
  using assms
  by (auto simp: putTextPlain_def httpClient_Do_def Let_def split: prod.splits sum.splits)

lemma delete_status:
  assumes "fst (Do t (server w) \<lparr>Method = DELETE, Path = path, Fields = [], Payload = NoBody\<rparr>) = Inr resp"
  shows "fst (delete t path res w) =
           (if StatusCode resp = 200 \<or> StatusCode resp = 204 then None
            else case Body resp of Inl err \<Rightarrow> Some err
                 | Inr dt \<Rightarrow> Some (handleRestError dt (StatusCode resp) ''DELETE'' res))"
  using assms
  by (auto simp: delete_def deleteByIDWithSling_def httpClient_Do_def split: prod.splits sum.splits)

text \<open>
  C3. Let the transport answer the request of a helper with a response of status \<open>s\<close>.
  \<open>getWithFields\<close>, and \<open>get\<close> which is \<open>getWithFields\<close> without fields, returns
  without error only when \<open>s = 200\<close>, and at \<open>s = 200\<close> its outcome is the decoding of
  the body into the output: for a body that decodes, it succeeds if and only if
  \<open>s = 200\<close>. \<open>post\<close> and \<open>put\<close> do the same for \<open>s = 200\<close> or \<open>s = 201\<close>;
  \<open>putTextPlain\<close>, once its request is built, returns without error only for
  \<open>s = 200\<close> or \<open>s = 201\<close>, and then its outcome is the body as read. \<open>delete\<close>
  returns without error exactly when \<open>s = 200\<close> or \<open>s = 204\<close>. At every other status,
  with the body \<open>dt\<close> read, the call returns the error of \<open>handleRestError\<close>, whose
  message carries the status in decimal, the verb, the resource description and \<open>dt\<close>.
\<close>

theorem restHelper_status_codes:
  "(answered t w \<lparr>Method = GET, Path = path, Fields = fs, Payload = NoBody\<rparr> resp \<longrightarrow>
      ((\<exists>v. fst (getWithFields t dec path fs res w) = Inr v) \<longrightarrow> StatusCode resp = 200)
      \<and> (StatusCode resp = 200 \<longrightarrow> fst (getWithFields t dec path fs res w) = Decode dec (Body resp))
      \<and> ((\<exists>v. Decode dec (Body resp) = Inr v) \<longrightarrow>
            ((\<exists>v. fst (getWithFields t dec path fs res w) = Inr v) \<longleftrightarrow> StatusCode resp = 200))
      \<and> (StatusCode resp \<noteq> 200 \<longrightarrow> Body resp = Inr dt \<longrightarrow>
            fst (getWithFields t dec path fs res w) = Inl (handleRestError dt (StatusCode resp) ''GET'' res)))
   \<and> get t dec path res w = getWithFields t dec path [] res w
   \<and> (answered t w \<lparr>Method = POST, Path = path, Fields = [], Payload = data\<rparr> resp \<longrightarrow>
      ((\<exists>v. fst (post t dec path data res w) = Inr v) \<longrightarrow> StatusCode resp = 200 \<or> StatusCode resp = 201)
      \<and> (StatusCode resp = 200 \<or> StatusCode resp = 201 \<longrightarrow> fst (post t dec path data res w) = Decode dec (Body resp))
      \<and> ((\<exists>v. Decode dec (Body resp) = Inr v) \<longrightarrow>
            ((\<exists>v. fst (post t dec path data res w) = Inr v) \<longleftrightarrow> StatusCode resp = 200 \<or> StatusCode resp = 201))
      \<and> (StatusCode resp \<noteq> 200 \<longrightarrow> StatusCode resp \<noteq> 201 \<longrightarrow> Body resp = Inr dt \<longrightarrow>
            fst (post t dec path data res w) = Inl (handleRestError dt (StatusCode resp) ''POST'' res)))
   \<and> (answered t w \<lparr>Method = PUT, Path = path, Fields = [], Payload = data\<rparr> resp \<longrightarrow>
      ((\<exists>v. fst (put t dec path data res w) = Inr v) \<longrightarrow> StatusCode resp = 200 \<or> StatusCode resp = 201)
      \<and> (StatusCode resp = 200 \<or> StatusCode resp = 201 \<longrightarrow> fst (put t dec path data res w) = Decode dec (Body resp))
      \<and> ((\<exists>v. Decode dec (Body resp) = Inr v) \<longrightarrow>
            ((\<exists>v. fst (put t dec path data res w) = Inr v) \<longleftrightarrow> StatusCode resp = 200 \<or> StatusCode resp = 201))
      \<and> (StatusCode resp \<noteq> 200 \<longrightarrow> StatusCode resp \<noteq> 201 \<longrightarrow> Body resp = Inr dt \<longrightarrow>
            fst (put t dec path data res w) = Inl (handleRestError dt (StatusCode resp) ''PUT'' res)))
   \<and> (Request_error t \<lparr>Method = PUT, Path = path, Fields = [], Payload = TextPlain content\<rparr> = None \<longrightarrow>
      answered t w \<lparr>Method = PUT, Path = path, Fields = [], Payload = TextPlain content\<rparr> resp \<longrightarrow>
      ((\<exists>v. fst (putTextPlain t path content res w) = Inr v) \<longrightarrow> StatusCode resp = 200 \<or> StatusCode resp = 201)
      \<and> (StatusCode resp = 200 \<or> StatusCode resp = 201 \<longrightarrow> fst (putTextPlain t path content res w) = Body resp)
      \<and> ((\<exists>b. Body resp = Inr b) \<longrightarrow>
            ((\<exists>v. fst (putTextPlain t path content res w) = Inr v) \<longleftrightarrow> StatusCode resp = 200 \<or> StatusCode resp = 201))
      \<and> (StatusCode resp \<noteq> 200 \<longrightarrow> StatusCode resp \<noteq> 201 \<longrightarrow> Body resp = Inr dt \<longrightarrow>
            fst (putTextPlain t path content res w) = Inl (handleRestError dt (StatusCode resp) ''PUT'' res)))
   \<and> (answered t w \<lparr>Method = DELETE, Path = path, Fields = [], Payload = NoBody\<rparr> resp \<longrightarrow>
      (fst (delete t path res w) = None \<longleftrightarrow> StatusCode resp = 200 \<or> StatusCode resp = 204)
      \<and> (StatusCode resp \<noteq> 200 \<longrightarrow> StatusCode resp \<noteq> 204 \<longrightarrow> Body resp = Inr dt \<longrightarrow>
            fst (delete t path res w) = Some (handleRestError dt (StatusCode resp) ''DELETE'' res)))
   \<and> handleRestError dt status op res =
        Errorf (''Error '' @ [CHR 0x27] @ show_int status @ [CHR 0x27] @ '' when performing '' @ [CHR 0x27]
                @ op @ [CHR 0x27] @ '' operation - '' @ res @ '': '' @ dt)"
proof -
  have g: "answered t w \<lparr>Method = GET, Path = path, Fields = fs, Payload = NoBody\<rparr> resp \<longrightarrow>
      ((\<exists>v. fst (getWithFields t dec path fs res w) = Inr v) \<longrightarrow> StatusCode resp = 200)
      \<and> (StatusCode resp = 200 \<longrightarrow> fst (getWithFields t dec path fs res w) = Decode dec (Body resp))
      \<and> ((\<exists>v. Decode dec (Body resp) = Inr v) \<longrightarrow>
            ((\<exists>v. fst (getWithFields t dec path fs res w) = Inr v) \<longleftrightarrow> StatusCode resp = 200))
      \<and> (StatusCode resp \<noteq> 200 \<longrightarrow> Body resp = Inr dt \<longrightarrow>
            fst (getWithFields t dec path fs res w) = Inl (handleRestError dt (StatusCode resp) ''GET'' res))"
    by (auto simp: answered_def getWithFields_status split: sum.splits)
  have po: "answered t w \<lparr>Method = POST, Path = path, Fields = [], Payload = data\<rparr> resp \<longrightarrow>
      ((\<exists>v. fst (post t dec path data res w) = Inr v) \<longrightarrow> StatusCode resp = 200 \<or> StatusCode resp = 201)
      \<and> (StatusCode resp = 200 \<or> StatusCode resp = 201 \<longrightarrow> fst (post t dec path data res w) = Decode dec (Body resp))
      \<and> ((\<exists>v. Decode dec (Body resp) = Inr v) \<longrightarrow>
            ((\<exists>v. fst (post t dec path data res w) = Inr v) \<longleftrightarrow> StatusCode resp = 200 \<or> StatusCode resp = 201))
      \<and> (StatusCode resp \<noteq> 200 \<longrightarrow> StatusCode resp \<noteq> 201 \<longrightarrow> Body resp = Inr dt \<longrightarrow>
            fst (post t dec path data res w) = Inl (handleRestError dt (StatusCode resp) ''POST'' res))"
    by (auto simp: answered_def post_status split: sum.splits)
  have pu: "answered t w \<lparr>Method = PUT, Path = path, Fields = [], Payload = data\<rparr> resp \<longrightarrow>
      ((\<exists>v. fst (put t dec path data res w) = Inr v) \<longrightarrow> StatusCode resp = 200 \<or> StatusCode resp = 201)
      \<and> (StatusCode resp = 200 \<or> StatusCode resp = 201 \<longrightarrow> fst (put t dec path data res w) = Decode dec (Body resp))
      \<and> ((\<exists>v. Decode dec (Body resp) = Inr v) \<longrightarrow>
            ((\<exists>v. fst (put t dec path data res w) = Inr v) \<longleftrightarrow> StatusCode resp = 200 \<or> StatusCode resp = 201))
      \<and> (StatusCode resp \<noteq> 200 \<longrightarrow> StatusCode resp \<noteq> 201 \<longrightarrow> Body resp = Inr dt \<longrightarrow>
            fst (put t dec path data res w) = Inl (handleRestError dt (StatusCode resp) ''PUT'' res))"
    by (auto simp: answered_def put_status split: sum.splits)
  have pt: "Request_error t \<lparr>Method = PUT, Path = path, Fields = [], Payload = TextPlain content\<rparr> = None \<longrightarrow>
      answered t w \<lparr>Method = PUT, Path = path, Fields = [], Payload = TextPlain content\<rparr> resp \<longrightarrow>
      ((\<exists>v. fst (putTextPlain t path content res w) = Inr v) \<longrightarrow> StatusCode resp = 200 \<or> StatusCode resp = 201)
      \<and> (StatusCode resp = 200 \<or> StatusCode resp = 201 \<longrightarrow> fst (putTextPlain t path content res w) = Body resp)
      \<and> ((\<exists>b. Body resp = Inr b) \<longrightarrow>
            ((\<exists>v. fst (putTextPlain t path content res w) = Inr v) \<longleftrightarrow> StatusCode resp = 200 \<or> StatusCode resp = 201))
      \<and> (StatusCode resp \<noteq> 200 \<longrightarrow> StatusCode resp \<noteq> 201 \<longrightarrow> Body resp = Inr dt \<longrightarrow>
            fst (putTextPlain t path content res w) = Inl (handleRestError dt (StatusCode resp) ''PUT'' res))"
    by (auto simp: answered_def putTextPlain_status split: sum.splits)
  have d: "answered t w \<lparr>Method = DELETE, Path = path, Fields = [], Payload = NoBody\<rparr> resp \<longrightarrow>
      (fst (delete t path res w) = None \<longleftrightarrow> StatusCode resp = 200 \<or> StatusCode resp = 204)
      \<and> (StatusCode resp \<noteq> 200 \<longrightarrow> StatusCode resp \<noteq> 204 \<longrightarrow> Body resp = Inr dt \<longrightarrow>
            fst (delete t path res w) = Some (handleRestError dt (StatusCode resp) ''DELETE'' res))"
    by (auto simp: answered_def delete_status split: sum.splits)
  have ge: "get t dec path res w = getWithFields t dec path [] res w"
    by (simp add: get_def)
  have h: "handleRestError dt status op res =
        Errorf (''Error '' @ [CHR 0x27] @ show_int status @ [CHR 0x27] @ '' when performing '' @ [CHR 0x27]
                @ op @ [CHR 0x27] @ '' operation - '' @ res @ '': '' @ dt)"
    by (simp add: handleRestError_def)
  from g ge po pu pt d h show ?thesis by blast
qed

theorem restHelper_status_codes_witness:
  "answered (stub_transport (reply 404 ''not found'')) w0
      \<lparr>Method = GET, Path = ''id:P1'', Fields = [], Payload = NoBody\<rparr>
      \<lparr>StatusCode = 404, Body = Inr ''not found''\<rparr>
   \<and> fst (getWithFields (stub_transport (reply 404 ''not found'')) json_flag ''id:P1'' [] ''project'' w0)
       = Inl (Errorf ''Error '404' when performing 'GET' operation - project: not found'')
   \<and> fst (post (stub_transport (reply 404 ''not found'')) json_flag ''id:P1'' NoBody ''project'' w0)
       = Inl (Errorf ''Error '404' when performing 'POST' operation - project: not found'')
   \<and> fst (put (stub_transport (reply 404 ''not found'')) json_flag ''id:P1'' NoBody ''project'' w0)
       = Inl (Errorf ''Error '404' when performing 'PUT' operation - project: not found'')
   \<and> fst (putTextPlain (stub_transport (reply 404 ''not found'')) ''id:P1'' ''x'' ''project'' w0)
       = Inl (Errorf ''Error '404' when performing 'PUT' operation - project: not found'')
   \<and> fst (delete (stub_transport (reply 404 ''not found'')) ''id:P1'' ''project'' w0)
       = Some (Errorf ''Error '404' when performing 'DELETE' operation - project: not found'')
   \<and> answered (stub_transport (reply 200 ''true'')) w0
      \<lparr>Method = GET, Path = ''id:P1'', Fields = [], Payload = NoBody\<rparr>
      \<lparr>StatusCode = 200, Body = Inr ''true''\<rparr>
   \<and> fst (getWithFields (stub_transport (reply 200 ''true'')) json_flag ''id:P1'' [] ''project'' w0) = Inr True
   \<and> fst (post (stub_transport (reply 200 ''true'')) json_flag ''id:P1'' NoBody ''project'' w0) = Inr True
   \<and> fst (put (stub_transport (reply 200 ''true'')) json_flag ''id:P1'' NoBody ''project'' w0) = Inr True
   \<and> fst (putTextPlain (stub_transport (reply 200 ''true'')) ''id:P1'' ''x'' ''project'' w0) = Inr ''true''
   \<and> fst (delete (stub_transport (reply 200 ''true'')) ''id:P1'' ''project'' w0) = None"
  using restHelper_status_codes[where t = "stub_transport (reply 404 ''not found'')" and w = w0
          and path = "''id:P1''" and fs = "[]" and resp = "\<lparr>StatusCode = 404, Body = Inr ''not found''\<rparr>"
          and dec = json_flag and res = "''project''" and dt = "''not found''" and data = NoBody
          and content = "''x''" and status = 404 and op = "''GET''"]
        restHelper_status_codes[where t = "stub_transport (reply 200 ''true'')" and w = w0
          and path = "''id:P1''" and fs = "[]" and resp = "\<lparr>StatusCode = 200, Body = Inr ''true''\<rparr>"
          and dec = json_flag and res = "''project''" and dt = "''true''" and data = NoBody
          and content = "''x''" and status = 200 and op = "''GET''"]
  by (simp add: answered_def stub_transport_def reply_def w0_def json_flag_def Decode_def
      handleRestError_def show_int_def digit_def)

section \<open>The property map of the Slack connection\<close>

lemma Slack_Properties_Map_plain:
  "Properties_Map masking (Slack_Properties f) ''clientId'' = Some (ClientId (Slack_Options f))
   \<and> Properties_Map masking (Slack_Properties f) ''displayName'' = Some (DisplayName (Slack_Options f))
   \<and> Properties_Map masking (Slack_Properties f) ''providerType'' = Some ''slackConnection''"
  by (simp add: Properties_Map_def Slack_Properties_def NewProperties_def NewProperty_def secure_def)

lemma Slack_Properties_Map_secure:
  "Map_index (Properties_Map masking (Slack_Properties f)) ''secure:clientSecret''
     = (if masking then [] else ClientSecret (Slack_Options f))
   \<and> Map_index (Properties_Map masking (Slack_Properties f)) ''secure:token''
     = (if masking then [] else Token (Slack_Options f))"
  by (simp add: Map_index_def Properties_Map_def Slack_Properties_def NewProperties_def NewProperty_def secure_def)

lemma load_Options:
  "\<exists>g. loadProjectFeatureSlackConnection pid feature = (Some g, None)
       \<and> Slack_id g = projectFeatureJSON_ID feature \<and> Slack_projectID g = pid
       \<and> ClientSecret (Slack_Options g) = [] \<and> Token (Slack_Options g) = []
       \<and> ClientId (Slack_Options g) = fst (GetOk (projectFeatureJSON_Properties feature) ''clientId'')
       \<and> DisplayName (Slack_Options g) = fst (GetOk (projectFeatureJSON_Properties feature) ''displayName'')
       \<and> ProviderType (Slack_Options g) = fst (GetOk (projectFeatureJSON_Properties feature) ''providerType'')"
  by (auto simp: loadProjectFeatureSlackConnection_def Let_def GetOk_def split: prod.splits option.splits)

text \<open>
  C4. The property map of \<open>Properties()\<close> holds \<open>clientId\<close> and \<open>displayName\<close> with the
  values of the options and \<open>providerType\<close> with \<open>slackConnection\<close>, for every feature.
  The feature handed back to a caller is the one \<open>loadProjectFeatureSlackConnection\<close>
  builds from the server's property list: whatever that list holds, also when it holds
  values under \<open>secure:clientSecret\<close> and \<open>secure:token\<close>, the loaded options have an
  empty client secret and an empty token, their client id, display name and provider type
  are those of the list, and indexing the property map of the loaded feature at either
  secure name gives the empty string. This holds whether or not the map leaves secure
  items out.
\<close>

theorem Slack_Properties_returned_to_caller:
  "Properties_Map masking (Slack_Properties f) ''clientId'' = Some (ClientId (Slack_Options f))
   \<and> Properties_Map masking (Slack_Properties f) ''displayName'' = Some (DisplayName (Slack_Options f))
   \<and> Properties_Map masking (Slack_Properties f) ''providerType'' = Some ''slackConnection''
   \<and> (\<exists>g. loadProjectFeatureSlackConnection pid feature = (Some g, None)
          \<and> Slack_id g = projectFeatureJSON_ID feature \<and> Slack_projectID g = pid
          \<and> ClientSecret (Slack_Options g) = [] \<and> Token (Slack_Options g) = []
          \<and> ClientId (Slack_Options g) = fst (GetOk (projectFeatureJSON_Properties feature) ''clientId'')
          \<and> DisplayName (Slack_Options g) = fst (GetOk (projectFeatureJSON_Properties feature) ''displayName'')
          \<and> ProviderType (Slack_Options g) = fst (GetOk (projectFeatureJSON_Properties feature) ''providerType'')
          \<and> Properties_Map masking (Slack_Properties g) ''clientId'' = Some (ClientId (Slack_Options g))
          \<and> Properties_Map masking (Slack_Properties g) ''displayName'' = Some (DisplayName (Slack_Options g))
          \<and> Properties_Map masking (Slack_Properties g) ''providerType'' = Some ''slackConnection''
          \<and> Map_index (Properties_Map masking (Slack_Properties g)) ''secure:clientSecret'' = []
          \<and> Map_index (Properties_Map masking (Slack_Properties g)) ''secure:token'' = [])"
proof -
  obtain g where g: "loadProjectFeatureSlackConnection pid feature = (Some g, None)"
    "Slack_id g = projectFeatureJSON_ID feature" "Slack_projectID g = pid"
    "ClientSecret (Slack_Options g) = []" "Token (Slack_Options g) = []"
    "ClientId (Slack_Options g) = fst (GetOk (projectFeatureJSON_Properties feature) ''clientId'')"
    "DisplayName (Slack_Options g) = fst (GetOk (projectFeatureJSON_Properties feature) ''displayName'')"
    "ProviderType (Slack_Options g) = fst (GetOk (projectFeatureJSON_Properties feature) ''providerType'')"
    using load_Options by blast
  have s: "Map_index (Properties_Map masking (Slack_Properties g)) ''secure:clientSecret'' = []"
          "Map_index (Properties_Map masking (Slack_Properties g)) ''secure:token'' = []"
    using Slack_Properties_Map_secure[of masking g] g(4,5) by simp_all
  show ?thesis
    using g s Slack_Properties_Map_plain[of masking f] Slack_Properties_Map_plain[of masking g]
    by blast
qed

text \<open>
  An instance after the test of the feature: the server's list echoes a client secret and
  a token; the feature loaded from it has the client id and the display name of the list,
  and neither secret in its property map.
\<close>

lemma Slack_Properties_echoing_server:
  "loadProjectFeatureSlackConnection ''Project1'' echoed_feature
     = (Some \<lparr>Slack_id = ''PROJECT_EXT_1'', Slack_projectID = ''Project1'',
               Slack_Options = \<lparr>ClientId = ''abcd.1234'', ClientSecret = [], DisplayName = ''Notifier'',
                                 ProviderType = ''slackConnection'', Token = []\<rparr>\<rparr>, None)
   \<and> Map_index (Properties_Map masking (Slack_Properties
         \<lparr>Slack_id = ''PROJECT_EXT_1'', Slack_projectID = ''Project1'',
          Slack_Options = \<lparr>ClientId = ''abcd.1234'', ClientSecret = [], DisplayName = ''Notifier'',
                            ProviderType = ''slackConnection'', Token = []\<rparr>\<rparr>)) ''clientId'' = ''abcd.1234''
   \<and> Map_index (Properties_Map masking (Slack_Properties
         \<lparr>Slack_id = ''PROJECT_EXT_1'', Slack_projectID = ''Project1'',
          Slack_Options = \<lparr>ClientId = ''abcd.1234'', ClientSecret = [], DisplayName = ''Notifier'',
                            ProviderType = ''slackConnection'', Token = []\<rparr>\<rparr>)) ''secure:clientSecret'' = []
   \<and> Map_index (Properties_Map masking (Slack_Properties
         \<lparr>Slack_id = ''PROJECT_EXT_1'', Slack_projectID = ''Project1'',
          Slack_Options = \<lparr>ClientId = ''abcd.1234'', ClientSecret = [], DisplayName = ''Notifier'',
                            ProviderType = ''slackConnection'', Token = []\<rparr>\<rparr>)) ''secure:token'' = []"
  by (simp add: loadProjectFeatureSlackConnection_def echoed_feature_def GetOk_def NewProperties_def
      NewProperty_def Let_def Map_index_def Properties_Map_def Slack_Properties_def secure_def)

section \<open>Get and the inherited parameters\<close>

lemma NonInherited_items:
  "Parameters_Items (NonInherited ps) = filter (\<lambda>v. \<not> Parameter_Inherited v) (Parameters_Items ps)
   \<and> Parameters_Count (NonInherited ps) = int (length (filter (\<lambda>v. \<not> Parameter_Inherited v) (Parameters_Items ps)))"
  by (simp add: NonInherited_def NewParametersEmpty_def Let_def)

text \<open>
  C6. Whenever \<open>Get\<close> returns a project and no error, the GET has succeeded with a
  decoded response \<open>out\<close> that holds a parameter collection, and the project returned is
  \<open>out\<close> with its parameters replaced by their non-inherited part: the items of the
  response that are not inherited, in their order, so that no inherited parameter is in
  the result. \<open>GetByID\<close>, \<open>GetByName\<close> and \<open>GetByUUID\<close> are \<open>Get\<close> at the locator of
  the ID, the name and the UUID.
\<close>

theorem Get_strips_inherited:
  assumes "fst (Get s locator w) = Return (Some p, None)"
  shows "(\<exists>out ps.
            fst (getWithFields (restHelper s) (json_Project s) (Locator_String locator) ''$long,uuid'' ''project'' w) = Inr out
          \<and> Project_Parameters out = Some ps
          \<and> p = out\<lparr>Project_Parameters := Some (NonInherited ps)\<rparr>
          \<and> Parameters_Items (NonInherited ps) = filter (\<lambda>v. \<not> Parameter_Inherited v) (Parameters_Items ps)
          \<and> Parameters_Count (NonInherited ps) = int (length (Parameters_Items (NonInherited ps)))
          \<and> (\<forall>v \<in> set (Parameters_Items (NonInherited ps)). \<not> Parameter_Inherited v))
       \<and> GetByID s ident w = Get s (LocatorID s ident) w
       \<and> GetByName s name w = Get s (LocatorName s name) w
       \<and> GetByUUID s uuid w = Get s (LocatorUUID s uuid) w"
proof -
  obtain r w' where g: "getWithFields (restHelper s) (json_Project s) (Locator_String locator) ''$long,uuid'' ''project'' w = (r, w')"
    by (cases "getWithFields (restHelper s) (json_Project s) (Locator_String locator) ''$long,uuid'' ''project'' w")
  from assms g obtain out where r: "r = Inr out"
    by (cases r) (auto simp: Get_def)
  from assms g r obtain ps where ps: "Project_Parameters out = Some ps"
    by (cases "Project_Parameters out") (auto simp: Get_def)
  from assms g r ps have p: "p = out\<lparr>Project_Parameters := Some (NonInherited ps)\<rparr>"
    by (simp add: Get_def)
  have "fst (getWithFields (restHelper s) (json_Project s) (Locator_String locator) ''$long,uuid'' ''project'' w) = Inr out"
    using g r by simp
  moreover have "\<forall>v \<in> set (Parameters_Items (NonInherited ps)). \<not> Parameter_Inherited v"
    by (simp add: NonInherited_items)
  ultimately show ?thesis
    using ps p NonInherited_items[of ps]
    by (auto simp: GetByID_def GetByName_def GetByUUID_def)
qed

theorem Get_strips_inherited_witness:
  "fst (Get inheriting_service (Locator ''id:P1'') w0) = Return (Some sample_project, None)
   \<and> fst (getWithFields (restHelper inheriting_service) (json_Project inheriting_service)
            ''id:P1'' ''$long,uuid'' ''project'' w0)
     = Inr (sample_project\<lparr>Project_Parameters := Some inherited_parameters\<rparr>)
   \<and> Project_Parameters sample_project = Some sample_parameters
   \<and> Parameters_Items sample_parameters
     = [\<lparr>Parameter_Name = ''env.stage'', Parameter_Value = ''prod'', Parameter_Inherited = False\<rparr>]
   \<and> fst (GetByID inheriting_service ''P1'' w0) = Return (Some sample_project, None)"
proof -
  have h: "fst (Get inheriting_service (Locator ''id:P1'') w0) = Return (Some sample_project, None)"
    by (simp add: Get_def getWithFields_def httpClient_Do_def Decode_def handleRestError_def show_int_def digit_def
      NonInherited_def NewParametersEmpty_def stub_service_def stub_transport_def w0_def Let_def
      reply_def inheriting_service_def always_inherited_def inherited_parameters_def
      sample_project_def sample_parameters_def)
  have g: "fst (getWithFields (restHelper inheriting_service) (json_Project inheriting_service)
            ''id:P1'' ''$long,uuid'' ''project'' w0)
     = Inr (sample_project\<lparr>Project_Parameters := Some inherited_parameters\<rparr>)"
    by (simp add: Get_def getWithFields_def httpClient_Do_def Decode_def handleRestError_def show_int_def digit_def
      NonInherited_def NewParametersEmpty_def stub_service_def stub_transport_def w0_def Let_def
      reply_def inheriting_service_def always_inherited_def inherited_parameters_def
      sample_project_def sample_parameters_def)
  have p: "Project_Parameters sample_project = Some sample_parameters"
    by (simp add: sample_project_def)
  have q: "Parameters_Items sample_parameters
     = [\<lparr>Parameter_Name = ''env.stage'', Parameter_Value = ''prod'', Parameter_Inherited = False\<rparr>]"
    by (simp add: sample_parameters_def)
  have i: "LocatorID inheriting_service ''P1'' = Locator ''id:P1''"
    by (simp add: inheriting_service_def stub_service_def)
  have "GetByID inheriting_service ''P1'' w0 = Get inheriting_service (LocatorID inheriting_service ''P1'') w0"
    using Get_strips_inherited[OF h, of "''P1''" "''One''" "''u-1''"] by (elim conjE)
  with i h have k: "fst (GetByID inheriting_service ''P1'' w0) = Return (Some sample_project, None)"
    by simp
  from h g p q k show ?thesis by (intro conjI)
qed

section \<open>Creating a project\<close>

lemma NewProject_error: "(\<exists>e. NewProject name description parentProjectID = (None, Some e)) \<longleftrightarrow> name = []"
  by (simp add: NewProject_def Let_def)

lemma NewProject_ok:
  "name \<noteq> [] \<Longrightarrow>
     \<exists>p. NewProject name description parentProjectID = (Some p, None)
        \<and> Project_Name p = name \<and> Project_Description p = description
        \<and> Project_ParentProjectID p = parentProjectID
        \<and> Project_Parameters p = Some NewParametersEmpty"
  by (simp add: NewProject_def Let_def)

lemma Create_first_request:
  "\<exists>rest. sent (snd (Create s project w))
      = sent w @ \<lparr>Method = POST, Path = [], Fields = [], Payload = JSON_Project project\<rparr> # rest"
proof (cases "post (restHelper s) (json_Project s) [] (JSON_Project project) ''project'' w")
  case (Pair r w1)
  note p = post_sent[OF Pair]
  show ?thesis
  proof (cases r)
    case (Inl err)
    then show ?thesis using Pair p by (simp add: Create_def)
  next
    case (Inr created)
    let ?loc = "LocatorID s (Project_ID created)"
    let ?p' = "project\<lparr>Project_ID := Project_ID created\<rparr>"
    have "\<exists>rs. sent (snd (updateProject s ?loc ?p' True w1)) = sent w1 @ rs"
    proof (cases "Get s ?loc w1")
      case (Pair g w2)
      note gs = Get_sent[OF Pair]
      show ?thesis
      proof (cases "\<exists>current. g = Return (Some current, None)")
        case True
        then obtain current where "g = Return (Some current, None)" by blast
        with Pair have "only_sends (permitted ?loc current ?p' True) w2 (snd (updateProject s ?loc ?p' True w1))"
          by (intro updateProject_only_sends) simp
        then show ?thesis using gs by (auto simp: only_sends_def)
      next
        case False
        then have "snd (updateProject s ?loc ?p' True w1) = w2"
          using Pair by (auto simp: updateProject_steps split: go.splits option.splits prod.splits)
        then show ?thesis using gs by simp
      qed
    qed
    then obtain rs where "sent (snd (updateProject s ?loc ?p' True w1)) = sent w1 @ rs" by blast
    then show ?thesis
      using Pair Inr p by (auto simp: Create_def Let_def split: prod.splits go.splits option.splits)
  qed
qed

lemma Create_post_fails:
  "post (restHelper s) (json_Project s) [] (JSON_Project project) ''project'' w = (Inl err, w1) \<Longrightarrow>
     Create s project w = ((Return (None, Some err), project), w1)"
  by (simp add: Create_def)

lemma Create_then_update:
  assumes "post (restHelper s) (json_Project s) [] (JSON_Project project) ''project'' w = (Inr created, w1)"
  shows "snd (Create s project w)
           = snd (updateProject s (LocatorID s (Project_ID created)) (project\<lparr>Project_ID := Project_ID created\<rparr>) True w1)
       \<and> fst (fst (Create s project w))
           = (case fst (updateProject s (LocatorID s (Project_ID created)) (project\<lparr>Project_ID := Project_ID created\<rparr>) True w1) of
                Panic \<Rightarrow> Panic
              | Return (updated, Some err) \<Rightarrow> Return (None, Some err)
              | Return (updated, None) \<Rightarrow> Return (updated, None))
       \<and> snd (fst (Create s project w)) = project\<lparr>Project_ID := Project_ID created\<rparr>"
  using assms
  by (auto simp: Create_def Let_def split: prod.splits go.splits option.splits)

text \<open>
  C5. \<open>NewProject\<close> returns an error exactly when the name is empty, the error
  \<open>name is required\<close>, and otherwise a project with the fields it was given;
  \<open>NewProject\<close> takes no transport and no world, so the check is made without a request.
  \<open>Create\<close> sends the creation POST of the project as the first request. When the POST
  fails, \<open>Create\<close> returns its error and sends nothing more. When it succeeds with the
  decoded \<open>created\<close>, \<open>Create\<close> goes on as \<open>updateProject\<close> does on the project with
  the created ID, at the locator of that ID and with \<open>isCreate\<close> set: the world it
  leaves and the result it returns are those of that update.
\<close>

theorem Create_validates_then_reconciles:
  "((\<exists>e. NewProject name description parentProjectID = (None, Some e)) \<longleftrightarrow> name = [])
   \<and> (name = [] \<longrightarrow> NewProject name description parentProjectID = (None, Some (Errorf ''name is required'')))
   \<and> (name \<noteq> [] \<longrightarrow>
        (\<exists>p. NewProject name description parentProjectID = (Some p, None)
            \<and> Project_Name p = name \<and> Project_Description p = description
            \<and> Project_ParentProjectID p = parentProjectID))
   \<and> (\<exists>rest. sent (snd (Create s project w))
          = sent w @ \<lparr>Method = POST, Path = [], Fields = [], Payload = JSON_Project project\<rparr> # rest)
   \<and> (post (restHelper s) (json_Project s) [] (JSON_Project project) ''project'' w = (Inl err, w') \<longrightarrow>
        Create s project w = ((Return (None, Some err), project), w'))
   \<and> (post (restHelper s) (json_Project s) [] (JSON_Project project) ''project'' w = (Inr created, w') \<longrightarrow>
        snd (Create s project w)
          = snd (updateProject s (LocatorID s (Project_ID created)) (project\<lparr>Project_ID := Project_ID created\<rparr>) True w')
        \<and> fst (fst (Create s project w))
          = (case fst (updateProject s (LocatorID s (Project_ID created)) (project\<lparr>Project_ID := Project_ID created\<rparr>) True w') of
               Panic \<Rightarrow> Panic
             | Return (updated, Some err) \<Rightarrow> Return (None, Some err)
             | Return (updated, None) \<Rightarrow> Return (updated, None)))"
proof -
  have a: "name = [] \<longrightarrow> NewProject name description parentProjectID = (None, Some (Errorf ''name is required''))"
    by (simp add: NewProject_def)
  have b: "name \<noteq> [] \<longrightarrow>
        (\<exists>p. NewProject name description parentProjectID = (Some p, None)
            \<and> Project_Name p = name \<and> Project_Description p = description
            \<and> Project_ParentProjectID p = parentProjectID)"
    using NewProject_ok[of name description parentProjectID] by blast
  show ?thesis
    using NewProject_error[of name description parentProjectID] a b
      Create_first_request[of s project w] Create_post_fails[of s project w err w']
      Create_then_update[of s project w created w']
    by blast
qed

theorem Create_validates_then_reconciles_witness:
  "NewProject ''One'' ''second'' [] = (Some new_project, None)
   \<and> post (restHelper echo_service) (json_Project echo_service) [] (JSON_Project new_project) ''project'' w0
       = (Inr sample_project,
          \<lparr>server = [\<lparr>Method = POST, Path = [], Fields = [], Payload = JSON_Project new_project\<rparr>],
           sent = [\<lparr>Method = POST, Path = [], Fields = [], Payload = JSON_Project new_project\<rparr>]\<rparr>)
   \<and> fst (fst (Create echo_service new_project w0)) = Return (Some sample_project, None)
   \<and> sent (snd (Create echo_service new_project w0))
       = [\<lparr>Method = POST, Path = [], Fields = [], Payload = JSON_Project new_project\<rparr>,
          \<lparr>Method = GET, Path = ''id:P1'', Fields = ''$long,uuid'', Payload = NoBody\<rparr>,
          \<lparr>Method = PUT, Path = ''id:P1/description'', Fields = [], Payload = TextPlain ''second''\<rparr>,
          \<lparr>Method = GET, Path = ''id:P1'', Fields = ''$long,uuid'', Payload = NoBody\<rparr>]
   \<and> NewProject ''One'' ''second'' ''Root''
       = (Some (new_project\<lparr>Project_ParentProject :=
                               Some \<lparr>ProjectReference_ID = ''Root'', ProjectReference_Name = [],
                                     ProjectReference_Description = [], ProjectReference_Href = [],
                                     ProjectReference_WebURL = []\<rparr>,
                            Project_ParentProjectID := ''Root''\<rparr>), None)
   \<and> NewProject [] ''second'' [] = (None, Some (Errorf ''name is required''))
   \<and> post (restHelper down_service) (json_Project down_service) [] (JSON_Project new_project) ''project'' w0
       = (Inl (Errorf ''Error '500' when performing 'POST' operation - project: down''),
          \<lparr>server = [],
           sent = [\<lparr>Method = POST, Path = [], Fields = [], Payload = JSON_Project new_project\<rparr>]\<rparr>)
   \<and> Create down_service new_project w0
       = ((Return (None, Some (Errorf ''Error '500' when performing 'POST' operation - project: down'')), new_project),
          \<lparr>server = [],
           sent = [\<lparr>Method = POST, Path = [], Fields = [], Payload = JSON_Project new_project\<rparr>]\<rparr>)"
proof -
  have a: "NewProject ''One'' ''second'' [] = (Some new_project, None)"
    by (simp add: NewProject_def new_project_def NewParametersEmpty_def)
  have a': "NewProject ''One'' ''second'' ''Root''
       = (Some (new_project\<lparr>Project_ParentProject :=
                               Some \<lparr>ProjectReference_ID = ''Root'', ProjectReference_Name = [],
                                     ProjectReference_Description = [], ProjectReference_Href = [],
                                     ProjectReference_WebURL = []\<rparr>,
                            Project_ParentProjectID := ''Root''\<rparr>), None)"
    by (simp add: NewProject_def new_project_def NewParametersEmpty_def)
  have b: "post (restHelper echo_service) (json_Project echo_service) [] (JSON_Project new_project) ''project'' w0
       = (Inr sample_project,
          \<lparr>server = [\<lparr>Method = POST, Path = [], Fields = [], Payload = JSON_Project new_project\<rparr>],
           sent = [\<lparr>Method = POST, Path = [], Fields = [], Payload = JSON_Project new_project\<rparr>]\<rparr>)"
    by (simp add: post_def httpClient_Do_def Decode_def stub_service_def stub_transport_def w0_def
      reply_def echo_service_def always_sample_def)
  have c: "fst (fst (Create echo_service new_project w0)) = Return (Some sample_project, None)"
    by (simp add: Create_def post_def updateProject_def updateStringField_def put_def putTextPlain_def
      Get_def getWithFields_def httpClient_Do_def Decode_def handleRestError_def show_int_def digit_def
      NonInherited_def NewParametersEmpty_def stub_service_def stub_transport_def w0_def Let_def
      reply_def echo_service_def new_project_def always_sample_def sample_project_def sample_parameters_def)
  have d: "sent (snd (Create echo_service new_project w0))
       = [\<lparr>Method = POST, Path = [], Fields = [], Payload = JSON_Project new_project\<rparr>,
          \<lparr>Method = GET, Path = ''id:P1'', Fields = ''$long,uuid'', Payload = NoBody\<rparr>,
          \<lparr>Method = PUT, Path = ''id:P1/description'', Fields = [], Payload = TextPlain ''second''\<rparr>,
          \<lparr>Method = GET, Path = ''id:P1'', Fields = ''$long,uuid'', Payload = NoBody\<rparr>]"
    by (simp add: Create_def post_def updateProject_def updateStringField_def put_def putTextPlain_def
      Get_def getWithFields_def httpClient_Do_def Decode_def handleRestError_def show_int_def digit_def
      NonInherited_def NewParametersEmpty_def stub_service_def stub_transport_def w0_def Let_def
      reply_def echo_service_def new_project_def always_sample_def sample_project_def sample_parameters_def)
  have e: "post (restHelper down_service) (json_Project down_service) [] (JSON_Project new_project) ''project'' w0
       = (Inl (Errorf ''Error '500' when performing 'POST' operation - project: down''),
          \<lparr>server = [],
           sent = [\<lparr>Method = POST, Path = [], Fields = [], Payload = JSON_Project new_project\<rparr>]\<rparr>)"
    by (simp add: post_def httpClient_Do_def Decode_def handleRestError_def show_int_def digit_def
      stub_service_def stub_transport_def w0_def reply_def down_service_def always_sample_def)
  note t1 = Create_validates_then_reconciles[where name = "''One''" and description = "''second''"
          and parentProjectID = "[]" and s = echo_service and project = new_project and w = w0
          and created = sample_project
          and w' = "\<lparr>server = [\<lparr>Method = POST, Path = [], Fields = [], Payload = JSON_Project new_project\<rparr>],
                    sent = [\<lparr>Method = POST, Path = [], Fields = [], Payload = JSON_Project new_project\<rparr>]\<rparr>"
          and err = "Errorf []"]
  note t2 = Create_validates_then_reconciles[where name = "[]" and description = "''second''"
          and parentProjectID = "[]" and s = down_service and project = new_project and w = w0
          and created = sample_project
          and w' = "\<lparr>server = [],
                    sent = [\<lparr>Method = POST, Path = [], Fields = [], Payload = JSON_Project new_project\<rparr>]\<rparr>"
          and err = "Errorf ''Error '500' when performing 'POST' operation - project: down''"]
  from t2 e have f: "Create down_service new_project w0
       = ((Return (None, Some (Errorf ''Error '500' when performing 'POST' operation - project: down'')), new_project),
          \<lparr>server = [],
           sent = [\<lparr>Method = POST, Path = [], Fields = [], Payload = JSON_Project new_project\<rparr>]\<rparr>)"
    by blast
  from t2 have g: "NewProject [] ''second'' [] = (None, Some (Errorf ''name is required''))"
    by blast
  from t1 a a' b c d e f g show ?thesis by blast
qed

text \<open>
  C9. When the creation POST succeeds with the decoded \<open>created\<close>, the project of the
  caller holds the ID of \<open>created\<close> after \<open>Create\<close>, whatever \<open>Create\<close> returns, and the
  update that follows the POST is run on the project with that ID. The witness is a run
  in which the POST succeeds, the update fails, and the caller's project has changed.
\<close>

theorem Create_overwrites_ID:
  assumes "post (restHelper s) (json_Project s) [] (JSON_Project project) ''project'' w = (Inr created, w')"
  shows "snd (fst (Create s project w)) = project\<lparr>Project_ID := Project_ID created\<rparr>
       \<and> snd (Create s project w)
           = snd (updateProject s (LocatorID s (Project_ID created)) (project\<lparr>Project_ID := Project_ID created\<rparr>) True w')"
  using Create_then_update[OF assms] by simp

theorem Create_overwrites_ID_witness:
  "post (restHelper post_only_service) (json_Project post_only_service) [] (JSON_Project new_project) ''project'' w0
     = (Inr sample_project,
        \<lparr>server = [\<lparr>Method = POST, Path = [], Fields = [], Payload = JSON_Project new_project\<rparr>],
         sent = [\<lparr>Method = POST, Path = [], Fields = [], Payload = JSON_Project new_project\<rparr>]\<rparr>)
   \<and> fst (fst (Create post_only_service new_project w0))
     = Return (None, Some (Errorf ''Error '404' when performing 'GET' operation - project: gone''))
   \<and> Project_ID new_project = []
   \<and> snd (fst (Create post_only_service new_project w0)) = new_project\<lparr>Project_ID := ''P1''\<rparr>"
proof -
  have h: "post (restHelper post_only_service) (json_Project post_only_service) [] (JSON_Project new_project) ''project'' w0
     = (Inr sample_project,
        \<lparr>server = [\<lparr>Method = POST, Path = [], Fields = [], Payload = JSON_Project new_project\<rparr>],
         sent = [\<lparr>Method = POST, Path = [], Fields = [], Payload = JSON_Project new_project\<rparr>]\<rparr>)"
    by (simp add: post_def httpClient_Do_def Decode_def stub_service_def stub_transport_def w0_def
      post_only_service_def post_only_def always_sample_def)
  have e: "fst (fst (Create post_only_service new_project w0))
     = Return (None, Some (Errorf ''Error '404' when performing 'GET' operation - project: gone''))"
    by (simp add: Create_def post_def updateProject_def updateStringField_def put_def putTextPlain_def
      Get_def getWithFields_def httpClient_Do_def Decode_def handleRestError_def show_int_def digit_def
      NonInherited_def NewParametersEmpty_def stub_service_def stub_transport_def w0_def Let_def
      post_only_service_def post_only_def new_project_def always_sample_def sample_project_def sample_parameters_def)
  from Create_overwrites_ID[OF h] h e show ?thesis
    by (simp add: sample_project_def new_project_def)
qed

section \<open>The Go build feature and \<open>test.format\<close>\<close>

lemma find_replaceFirst:
  "n \<in> Property_Name ` set xs \<Longrightarrow>
     find (\<lambda>x. Property_Name x = n) (replaceFirst n v xs) = Some (NewProperty n v)"
  by (induction xs) (auto simp: NewProperty_def)

lemma find_append_new:
  "n \<notin> Property_Name ` set xs \<Longrightarrow>
     find (\<lambda>x. Property_Name x = n) (xs @ [NewProperty n v]) = Some (NewProperty n v)"
  by (induction xs) (auto simp: NewProperty_def)

lemma GetOk_AddOrReplaceValue: "GetOk (AddOrReplaceValue p n v) n = (v, True)"
proof (cases "n \<in> Property_Name ` set (Properties_Items p)")
  case True
  then show ?thesis
    by (simp add: GetOk_def AddOrReplaceValue_def find_replaceFirst) (simp add: NewProperty_def)
next
  case False
  then show ?thesis
    by (simp add: GetOk_def AddOrReplaceValue_def find_append_new) (simp add: NewProperty_def)
qed

lemma replaceFirst_member:
  "n \<in> Property_Name ` set xs \<Longrightarrow> NewProperty n v \<in> set (replaceFirst n v xs)"
  by (induction xs) (auto simp: NewProperty_def)

lemma AddOrReplaceValue_member: "NewProperty n v \<in> set (Properties_Items (AddOrReplaceValue p n v))"
  by (simp add: AddOrReplaceValue_def replaceFirst_member)

lemma replaceFirst_others:
  "filter (\<lambda>x. Property_Name x \<noteq> n) (replaceFirst n v xs) = filter (\<lambda>x. Property_Name x \<noteq> n) xs"
  by (induction xs) auto

lemma AddOrReplaceValue_others:
  "filter (\<lambda>x. Property_Name x \<noteq> n) (Properties_Items (AddOrReplaceValue p n v))
     = filter (\<lambda>x. Property_Name x \<noteq> n) (Properties_Items p)"
  by (simp add: AddOrReplaceValue_def replaceFirst_others NewProperty_def)

text \<open>
  C10. For a feature that holds a property collection, \<open>MarshalJSON\<close> hands to
  \<open>json.Marshal\<close> a value with the feature's id, its disabled flag, the type \<open>golang\<close>
  and the collection after \<open>AddOrReplaceValue\<close> of \<open>test.format\<close> to \<open>json\<close>, and
  returns what \<open>json.Marshal\<close> returns for it. That collection has the property
  \<open>test.format\<close> with the value \<open>json\<close>, whatever it held before, and its items of
  other names are the ones it had. The receiver holds the same collection after the
  call: its own properties have gained the entry or had it replaced. \<open>UnmarshalJSON\<close>,
  once the data is decoded without a \<open>disabled\<close> field, leaves the receiver not disabled;
  with a property collection in the data it returns no error and sets the id, the
  disabled flag and a new collection of the decoded items.
\<close>

theorem MarshalJSON_forces_test_format:
  "(FeatureGolang_properties f = Some properties \<longrightarrow>
      (\<exists>out. fst (MarshalJSON json_Marshal f)
               = Return (case json_Marshal out of Inl err \<Rightarrow> (None, Some err) | Inr bytes \<Rightarrow> (Some bytes, None))
         \<and> buildFeatureJSON_ID out = FeatureGolang_id f
         \<and> buildFeatureJSON_Disabled out = Some (FeatureGolang_disabled f)
         \<and> buildFeatureJSON_Inherited out = Some False
         \<and> buildFeatureJSON_Type out = ''golang''
         \<and> buildFeatureJSON_Properties out = Some (AddOrReplaceValue properties ''test.format'' ''json''))
      \<and> FeatureGolang_properties (snd (MarshalJSON json_Marshal f))
           = Some (AddOrReplaceValue properties ''test.format'' ''json'')
      \<and> GetOk (AddOrReplaceValue properties ''test.format'' ''json'') ''test.format'' = (''json'', True)
      \<and> NewProperty ''test.format'' ''json'' \<in> set (Properties_Items (AddOrReplaceValue properties ''test.format'' ''json''))
      \<and> filter (\<lambda>x. Property_Name x \<noteq> ''test.format'') (Properties_Items (AddOrReplaceValue properties ''test.format'' ''json''))
           = filter (\<lambda>x. Property_Name x \<noteq> ''test.format'') (Properties_Items properties))
   \<and> (json_Unmarshal data = Inr aux \<longrightarrow> buildFeatureJSON_Disabled aux = None \<longrightarrow>
        \<not> FeatureGolang_disabled (snd (UnmarshalJSON json_Unmarshal g data)))
   \<and> (json_Unmarshal data = Inr aux \<longrightarrow> buildFeatureJSON_Properties aux = Some ps \<longrightarrow>
        UnmarshalJSON json_Unmarshal g data
          = (Return None,
             g\<lparr>FeatureGolang_id := buildFeatureJSON_ID aux,
                FeatureGolang_disabled := (case buildFeatureJSON_Disabled aux of None \<Rightarrow> False | Some d \<Rightarrow> d),
                FeatureGolang_properties := Some (NewProperties (Properties_Items ps))\<rparr>))"
proof -
  have m: "FeatureGolang_properties f = Some properties \<Longrightarrow>
      (\<exists>out. fst (MarshalJSON json_Marshal f)
               = Return (case json_Marshal out of Inl err \<Rightarrow> (None, Some err) | Inr bytes \<Rightarrow> (Some bytes, None))
         \<and> buildFeatureJSON_ID out = FeatureGolang_id f
         \<and> buildFeatureJSON_Disabled out = Some (FeatureGolang_disabled f)
         \<and> buildFeatureJSON_Inherited out = Some False
         \<and> buildFeatureJSON_Type out = ''golang''
         \<and> buildFeatureJSON_Properties out = Some (AddOrReplaceValue properties ''test.format'' ''json''))"
    by (rule exI[of _ "\<lparr>buildFeatureJSON_ID = FeatureGolang_id f,
                      buildFeatureJSON_Disabled = Some (FeatureGolang_disabled f),
                      buildFeatureJSON_Properties = Some (AddOrReplaceValue properties ''test.format'' ''json''),
                      buildFeatureJSON_Inherited = Some False,
                      buildFeatureJSON_Type = FeatureGolang_Type f\<rparr>"])
       (simp add: MarshalJSON_def Let_def FeatureGolang_Type_def split: sum.splits)
  have r: "FeatureGolang_properties f = Some properties \<Longrightarrow>
      FeatureGolang_properties (snd (MarshalJSON json_Marshal f))
           = Some (AddOrReplaceValue properties ''test.format'' ''json'')"
    by (simp add: MarshalJSON_def Let_def split: sum.splits)
  have u: "json_Unmarshal data = Inr aux \<Longrightarrow> buildFeatureJSON_Disabled aux = None \<Longrightarrow>
        \<not> FeatureGolang_disabled (snd (UnmarshalJSON json_Unmarshal g data))"
    by (simp add: UnmarshalJSON_def Let_def split: option.splits)
  have v: "json_Unmarshal data = Inr aux \<Longrightarrow> buildFeatureJSON_Properties aux = Some ps \<Longrightarrow>
        UnmarshalJSON json_Unmarshal g data
          = (Return None,
             g\<lparr>FeatureGolang_id := buildFeatureJSON_ID aux,
                FeatureGolang_disabled := (case buildFeatureJSON_Disabled aux of None \<Rightarrow> False | Some d \<Rightarrow> d),
                FeatureGolang_properties := Some (NewProperties (Properties_Items ps))\<rparr>)"
    by (simp add: UnmarshalJSON_def Let_def)
  show ?thesis
    using m r u v GetOk_AddOrReplaceValue AddOrReplaceValue_member AddOrReplaceValue_others by blast
qed

theorem MarshalJSON_forces_test_format_witness:
  "FeatureGolang_properties xml_feature
     = Some (NewProperties [NewProperty ''a'' ''1'', NewProperty ''test.format'' ''xml''])
   \<and> MarshalJSON marshal_stub xml_feature
     = (Return (Some ''{}'', None),
        NewFeatureGolang\<lparr>FeatureGolang_properties :=
          Some (NewProperties [NewProperty ''a'' ''1'', NewProperty ''test.format'' ''json''])\<rparr>)
   \<and> MarshalJSON marshal_stub NewFeatureGolang
     = (Return (Some ''{}'', None),
        NewFeatureGolang\<lparr>FeatureGolang_properties := Some (NewProperties [NewProperty ''test.format'' ''json''])\<rparr>)
   \<and> unmarshal_stub ''{}'' = Inr feature_without_disabled
   \<and> buildFeatureJSON_Disabled feature_without_disabled = None
   \<and> UnmarshalJSON unmarshal_stub (NewFeatureGolang\<lparr>FeatureGolang_disabled := True\<rparr>) ''{}''
     = (Return None, NewFeatureGolang\<lparr>FeatureGolang_id := ''F1''\<rparr>)"
proof -
  have a: "FeatureGolang_properties xml_feature
     = Some (NewProperties [NewProperty ''a'' ''1'', NewProperty ''test.format'' ''xml''])"
    by (simp add: xml_feature_def)
  have b: "unmarshal_stub ''{}'' = Inr feature_without_disabled"
    by (simp add: unmarshal_stub_def)
  have c: "buildFeatureJSON_Disabled feature_without_disabled = None"
    by (simp add: feature_without_disabled_def)
  note t = MarshalJSON_forces_test_format[where f = xml_feature
          and properties = "NewProperties [NewProperty ''a'' ''1'', NewProperty ''test.format'' ''xml'']"
          and json_Marshal = marshal_stub and json_Unmarshal = unmarshal_stub and data = "''{}''"
          and aux = feature_without_disabled and g = "NewFeatureGolang\<lparr>FeatureGolang_disabled := True\<rparr>"
          and ps = "NewProperties []"]
  from t a b c show ?thesis
    by (simp add: MarshalJSON_def UnmarshalJSON_def NewFeatureGolang_def NewProperties_def NewProperty_def
        AddOrReplaceValue_def Let_def FeatureGolang_Type_def xml_feature_def marshal_stub_def
        unmarshal_stub_def feature_without_disabled_def)
qed

section \<open>The writes of an update\<close>

text \<open>
  The claim C1 as stated fails for the parameter set. The server answers the GET with the
  very project that is passed to \<open>Update\<close>, which holds one parameter: \<open>Update\<close> still
  sends the PUT of the parameters.
\<close>

theorem Update_identical_counterexample:
  "Get echo_service (LocatorUUID echo_service (Project_UUID sample_project)) w0
     = (Return (Some sample_project, None),
        \<lparr>server = [],
         sent = [\<lparr>Method = GET, Path = ''uuid:u-1'', Fields = ''$long,uuid'', Payload = NoBody\<rparr>]\<rparr>)
   \<and> sent (snd (Update echo_service sample_project w0))
     = [\<lparr>Method = GET, Path = ''uuid:u-1'', Fields = ''$long,uuid'', Payload = NoBody\<rparr>,
        \<lparr>Method = PUT, Path = ''P1/parameters'', Fields = [],
         Payload = JSON_Parameters (Some sample_parameters)\<rparr>,
        \<lparr>Method = GET, Path = ''uuid:u-1'', Fields = ''$long,uuid'', Payload = NoBody\<rparr>]"
  by (simp add: Update_def updateProject_def updateStringField_def put_def putTextPlain_def
      Get_def getWithFields_def httpClient_Do_def Decode_def handleRestError_def show_int_def digit_def
      NonInherited_def NewParametersEmpty_def stub_service_def stub_transport_def w0_def Let_def
      reply_def echo_service_def always_sample_def sample_project_def sample_parameters_def)

text \<open>
  C1, amended. Let the GET at the start of \<open>Update\<close> return the server's \<open>current\<close>
  project. Every request \<open>Update\<close> sends after it is the GET of the project or the PUT of
  one field with the value of the project passed in, and the PUT of the name, of the
  description, of the identifier and of the parent project is sent only when that field
  of \<open>current\<close> differs from the one passed in; the PUT of the parameters is sent only
  when the project passed in has a parameter count above zero, and is not compared with
  the server's. So when name, description, identifier and parent are those of
  \<open>current\<close> and the project passed in counts no parameters, \<open>Update\<close> sends no write.
\<close>

theorem Update_writes_only_what_differs:
  assumes "Get s (LocatorUUID s (Project_UUID project)) w = (Return (Some current, None), w')"
  shows "\<exists>rs. sent (snd (Update s project w)) = sent w' @ rs
     \<and> (\<forall>r \<in> set rs.
           r = \<lparr>Method = GET, Path = Locator_String (LocatorUUID s (Project_UUID project)),
                Fields = ''$long,uuid'', Payload = NoBody\<rparr>
         \<or> (r = \<lparr>Method = PUT, Path = Locator_String (LocatorUUID s (Project_UUID project)) @ ''/name'',
                   Fields = [], Payload = TextPlain (Project_Name project)\<rparr>
            \<and> Project_Name current \<noteq> Project_Name project)
         \<or> (r = \<lparr>Method = PUT, Path = Locator_String (LocatorUUID s (Project_UUID project)) @ ''/description'',
                   Fields = [], Payload = TextPlain (Project_Description project)\<rparr>
            \<and> Project_Description current \<noteq> Project_Description project)
         \<or> (r = \<lparr>Method = PUT, Path = Locator_String (LocatorUUID s (Project_UUID project)) @ ''/id'',
                   Fields = [], Payload = TextPlain (Project_ID project)\<rparr>
            \<and> Project_ID current \<noteq> Project_ID project)
         \<or> (r = \<lparr>Method = PUT, Path = Project_ID project @ ''/parentProject'', Fields = [],
                   Payload = JSON_ProjectReference (Project_ParentProject project)\<rparr>
            \<and> Project_ParentProjectID current \<noteq> Project_ParentProjectID project)
         \<or> (r = \<lparr>Method = PUT, Path = Project_ID project @ ''/parameters'', Fields = [],
                   Payload = JSON_Parameters (Project_Parameters project)\<rparr>
            \<and> (\<exists>parameters. Project_Parameters project = Some parameters \<and> 0 < Parameters_Count parameters)))
     \<and> (Project_Name current = Project_Name project
          \<and> Project_Description current = Project_Description project
          \<and> Project_ID current = Project_ID project
          \<and> Project_ParentProjectID current = Project_ParentProjectID project
          \<and> (\<forall>parameters. Project_Parameters project = Some parameters \<longrightarrow> Parameters_Count parameters \<le> 0)
        \<longrightarrow> (\<forall>r \<in> set rs. Method r = GET))"
proof -
  let ?loc = "LocatorUUID s (Project_UUID project)"
  from updateProject_only_sends[OF assms, of project False]
  obtain rs where rs: "sent (snd (Update s project w)) = sent w' @ rs"
    and all: "list_all (permitted ?loc current project False) rs"
    by (auto simp: only_sends_def Update_def)
  have p: "\<forall>r \<in> set rs. permitted ?loc current project False r"
    using all by (simp add: list_all_iff)
  have idem: "Project_Name current = Project_Name project
          \<and> Project_Description current = Project_Description project
          \<and> Project_ID current = Project_ID project
          \<and> Project_ParentProjectID current = Project_ParentProjectID project
          \<and> (\<forall>parameters. Project_Parameters project = Some parameters \<longrightarrow> Parameters_Count parameters \<le> 0)
        \<longrightarrow> (\<forall>r \<in> set rs. Method r = GET)"
    using p by (fastforce simp: permitted_def)
  show ?thesis
    apply (rule exI[of _ rs])
    using rs p idem unfolding permitted_def by simp
qed

theorem Update_writes_only_what_differs_witness:
  "Get echo_service (LocatorUUID echo_service (Project_UUID renamed_project)) w0
     = (Return (Some sample_project, None),
        \<lparr>server = [],
         sent = [\<lparr>Method = GET, Path = ''uuid:u-1'', Fields = ''$long,uuid'', Payload = NoBody\<rparr>]\<rparr>)
   \<and> sent (snd (Update echo_service renamed_project w0))
     = [\<lparr>Method = GET, Path = ''uuid:u-1'', Fields = ''$long,uuid'', Payload = NoBody\<rparr>,
        \<lparr>Method = PUT, Path = ''uuid:u-1/name'', Fields = [], Payload = TextPlain ''Renamed''\<rparr>,
        \<lparr>Method = GET, Path = ''uuid:u-1'', Fields = ''$long,uuid'', Payload = NoBody\<rparr>]"
proof -
  have h: "Get echo_service (LocatorUUID echo_service (Project_UUID renamed_project)) w0
     = (Return (Some sample_project, None),
        \<lparr>server = [],
         sent = [\<lparr>Method = GET, Path = ''uuid:u-1'', Fields = ''$long,uuid'', Payload = NoBody\<rparr>]\<rparr>)"
    by (simp add: Get_def getWithFields_def httpClient_Do_def Decode_def handleRestError_def show_int_def digit_def
      NonInherited_def NewParametersEmpty_def stub_service_def stub_transport_def w0_def Let_def
      reply_def echo_service_def renamed_project_def always_sample_def sample_project_def sample_parameters_def)
  have r: "sent (snd (Update echo_service renamed_project w0))
     = [\<lparr>Method = GET, Path = ''uuid:u-1'', Fields = ''$long,uuid'', Payload = NoBody\<rparr>,
        \<lparr>Method = PUT, Path = ''uuid:u-1/name'', Fields = [], Payload = TextPlain ''Renamed''\<rparr>,
        \<lparr>Method = GET, Path = ''uuid:u-1'', Fields = ''$long,uuid'', Payload = NoBody\<rparr>]"
    by (simp add: Update_def updateProject_def updateStringField_def put_def putTextPlain_def
      Get_def getWithFields_def httpClient_Do_def Decode_def handleRestError_def show_int_def digit_def
      NonInherited_def NewParametersEmpty_def stub_service_def stub_transport_def w0_def Let_def
      reply_def echo_service_def renamed_project_def always_sample_def sample_project_def sample_parameters_def)
  from Update_writes_only_what_differs[OF h] h r show ?thesis by blast
qed

section \<open>A failed PUT of the parent project\<close>

lemma updateProject_parent_swallows_error:
  assumes "Project_ParentProjectID project \<noteq> [] \<or> Project_ParentProject project \<noteq> None"
      and "Project_ParentProjectID current \<noteq> Project_ParentProjectID project"
      and "put (restHelper s) (json_ProjectReference s) (Project_ID project @ ''/parentProject'')
             (JSON_ProjectReference (Project_ParentProject project)) ''parent project'' w = (Inl err, w')"
  shows "updateProject_parent s locator project False current w = (Return (None, None), w')"
  using assms by (auto simp: updateProject_parent_def)

text \<open>
  C2, at a failing input. The server holds the sample project without a parent; the
  project passed to \<open>Update\<close> names the parent \<open>Other\<close>. The server refuses the PUT of
  the parent project with status 500, \<open>put\<close> returns the error of that status, and
  \<open>Update\<close> returns neither a project nor an error.
\<close>

theorem Update_parent_failure_returns_nil:
  "fst (put (restHelper refusing_service) (json_ProjectReference refusing_service) ''P1/parentProject''
          (JSON_ProjectReference (Project_ParentProject moved_project)) ''parent project''
          \<lparr>server = [],
           sent = [\<lparr>Method = GET, Path = ''uuid:u-1'', Fields = ''$long,uuid'', Payload = NoBody\<rparr>]\<rparr>)
     = Inl (Errorf ''Error '500' when performing 'PUT' operation - parent project: boom'')
   \<and> Update refusing_service moved_project w0
     = (Return (None, None),
        \<lparr>server = [],
         sent = [\<lparr>Method = GET, Path = ''uuid:u-1'', Fields = ''$long,uuid'', Payload = NoBody\<rparr>,
                 \<lparr>Method = PUT, Path = ''P1/parentProject'', Fields = [],
                  Payload = JSON_ProjectReference (Project_ParentProject moved_project)\<rparr>]\<rparr>)"
  by (simp add: Update_def updateProject_def updateStringField_def put_def putTextPlain_def
      Get_def getWithFields_def httpClient_Do_def Decode_def handleRestError_def show_int_def digit_def
      NonInherited_def NewParametersEmpty_def stub_service_def stub_transport_def w0_def Let_def
      refusing_service_def refuse_parent_def moved_project_def always_sample_def sample_project_def sample_parameters_def)

text \<open>
  C7, at a failing input. The project passed to \<open>Update\<close> has a new name and the parent
  \<open>Other\<close>. The PUT of the name succeeds and stays applied in the server's state, no
  request follows the refused PUT of the parent project, and \<open>Update\<close> returns neither
  a project nor an error: the failing step is not reported.
\<close>

theorem Update_partial_failure_unreported:
  "Update refusing_service renamed_moved_project w0
     = (Return (None, None),
        \<lparr>server = [\<lparr>Method = PUT, Path = ''uuid:u-1/name'', Fields = [], Payload = TextPlain ''Renamed''\<rparr>],
         sent = [\<lparr>Method = GET, Path = ''uuid:u-1'', Fields = ''$long,uuid'', Payload = NoBody\<rparr>,
                 \<lparr>Method = PUT, Path = ''uuid:u-1/name'', Fields = [], Payload = TextPlain ''Renamed''\<rparr>,
                 \<lparr>Method = PUT, Path = ''P1/parentProject'', Fields = [],
                  Payload = JSON_ProjectReference (Project_ParentProject moved_project)\<rparr>]\<rparr>)"
  by (simp add: Update_def updateProject_def updateStringField_def put_def putTextPlain_def
      Get_def getWithFields_def httpClient_Do_def Decode_def handleRestError_def show_int_def digit_def
      NonInherited_def NewParametersEmpty_def stub_service_def stub_transport_def w0_def Let_def
      refusing_service_def refuse_parent_def renamed_moved_project_def moved_project_def always_sample_def sample_project_def sample_parameters_def)

end
